theory Spec2Isabelle
  imports Main
begin

section \<open>Paths and the file system probed by \<open>opencode.paths.ts\<close>\<close>

text \<open>
  Paths are the strings the source passes around. \<open>join\<close> is \<open>path.join\<close> on segments that
  are already normal (the library additionally collapses dot segments and repeated
  separators, which none of the probes below produces); \<open>dirname\<close> is the POSIX
  \<open>path.dirname\<close>: trailing separators are skipped, the last component is cut off, a path
  without an inner separator gives \<open>/\<close> or \<open>.\<close>.
\<close>

definition join :: "string \<Rightarrow> string \<Rightarrow> string" where
  "join a b = a @ ''/'' @ b"

definition is_sep :: "char \<Rightarrow> bool" where
  "is_sep c = (c = CHR ''/'')"

definition dirname :: "string \<Rightarrow> string" where
  "dirname p =
     (case p of
        [] \<Rightarrow> ''.''
      | c # cs \<Rightarrow>
          (let r = dropWhile (\<lambda>x. \<not> is_sep x) (dropWhile is_sep (rev cs))
           in case r of
                [] \<Rightarrow> (if is_sep c then ''/'' else ''.'')
              | _ # front \<Rightarrow>
                  (if is_sep c \<and> front = [] then ''//'' else c # rev front)))"

text \<open>
  What \<open>existsSync\<close> and \<open>readFile\<close> can observe of a path: nothing there, a directory,
  a readable file with its content, or a file whose read is refused.
\<close>

datatype node = Dir | File string | Unreadable

type_synonym fs = "string \<Rightarrow> node option"

datatype io_error = ENOENT | EISDIR | EACCES

definition existsSync :: "fs \<Rightarrow> string \<Rightarrow> bool" where
  "existsSync fs p = (fs p \<noteq> None)"

definition readFile :: "fs \<Rightarrow> string \<Rightarrow> io_error + string" where
  "readFile fs p =
     (case fs p of
        None \<Rightarrow> Inl ENOENT
      | Some Dir \<Rightarrow> Inl EISDIR
      | Some Unreadable \<Rightarrow> Inl EACCES
      | Some (File content) \<Rightarrow> Inr content)"

subsection \<open>\<open>String.prototype.trim\<close> and \<open>parseInt(_, 10)\<close>\<close>

text \<open>
  White space is the ASCII part of the ECMAScript set (TAB, LF, VT, FF, CR, SPACE).
  \<open>parseInt\<close> skips leading white space, reads an optional sign and the longest run of
  decimal digits; no digit at all is \<open>NaN\<close>, here \<open>None\<close>. Numbers are unbounded integers
  (the source's doubles round beyond \<open>2^53\<close>, which no comparison below can see).
\<close>

definition is_space :: "char \<Rightarrow> bool" where
  "is_space c = (c \<in> set [CHR 0x09, CHR 0x0A, CHR 0x0B, CHR 0x0C, CHR 0x0D, CHR '' ''])"

definition trim :: "string \<Rightarrow> string" where
  "trim s = rev (dropWhile is_space (rev (dropWhile is_space s)))"

definition is_digit :: "char \<Rightarrow> bool" where
  "is_digit c = (48 \<le> (of_char c :: nat) \<and> (of_char c :: nat) \<le> 57)"

definition digit_val :: "char \<Rightarrow> int" where
  "digit_val c = int (of_char c) - 48"

definition digits_val :: "string \<Rightarrow> int" where
  "digits_val ds = foldl (\<lambda>acc c. 10 * acc + digit_val c) 0 ds"

definition parseInt10 :: "string \<Rightarrow> int option" where
  "parseInt10 s =
     (let t = dropWhile is_space s;
          neg = (case t of [] \<Rightarrow> False | c # _ \<Rightarrow> c = CHR ''-'');
          u = (case t of [] \<Rightarrow> []
               | c # r \<Rightarrow> if c = CHR ''-'' \<or> c = CHR ''+'' then r else t);
          ds = takeWhile is_digit u
      in if ds = [] then None
         else Some (if neg then - digits_val ds else digits_val ds))"

text \<open>\<open>x || 0\<close> on a number: \<open>NaN\<close> and \<open>0\<close> are falsy.\<close>

definition or_zero :: "int option \<Rightarrow> int" where
  "or_zero x = (case x of None \<Rightarrow> 0 | Some n \<Rightarrow> if n = 0 then 0 else n)"

subsection \<open>\<open>detectStorageLayout\<close>\<close>

datatype layout = PostMigration | Legacy | Mixed | Sqlite | Unknown

record StorageLayoutResult =
  layout :: layout
  migrationVersion :: int
  postMigrationPath :: "string option"
  legacyPaths :: "string list option"
  dbPath :: "string option"

text \<open>
  The marker is read inside a \<open>try\<close> whose \<open>catch\<close> sets the version to \<open>0\<close>; that is the
  \<open>Inl\<close> branch below.
\<close>

definition readMigrationVersion :: "fs \<Rightarrow> string \<Rightarrow> int" where
  "readMigrationVersion fs storagePath =
     (let migrationFile = join storagePath ''migration''
      in if existsSync fs migrationFile
         then (case readFile fs migrationFile of
                 Inr content \<Rightarrow> or_zero (parseInt10 (trim content))
               | Inl _ \<Rightarrow> 0)
         else 0)"

definition hasPostMigration :: "fs \<Rightarrow> string \<Rightarrow> bool" where
  "hasPostMigration fs storagePath =
     (existsSync fs (join storagePath ''session'') \<and>
      existsSync fs (join storagePath ''message'') \<and>
      existsSync fs (join storagePath ''part''))"

definition hasSqlite :: "fs \<Rightarrow> string \<Rightarrow> bool" where
  "hasSqlite fs storagePath = existsSync fs (join (dirname storagePath) ''opencode.db'')"

definition hasLegacy :: "fs \<Rightarrow> string \<Rightarrow> bool" where
  "hasLegacy fs storagePath = existsSync fs (join (dirname storagePath) ''project'')"

definition detectStorageLayout :: "fs \<Rightarrow> string \<Rightarrow> StorageLayoutResult" where
  "detectStorageLayout fs storagePath =
     (let mv = readMigrationVersion fs storagePath;
          pm = hasPostMigration fs storagePath;
          db = join (dirname storagePath) ''opencode.db'';
          sq = hasSqlite fs storagePath;
          projectDir = join (dirname storagePath) ''project'';
          lg = hasLegacy fs storagePath;
          dbField = (if sq then Some db else None)
      in if mv \<ge> 1 \<and> pm then
           \<lparr>layout = PostMigration, migrationVersion = mv,
            postMigrationPath = Some storagePath, legacyPaths = None, dbPath = dbField\<rparr>
         else if pm \<and> lg then
           \<lparr>layout = Mixed, migrationVersion = mv,
            postMigrationPath = Some storagePath, legacyPaths = Some [projectDir],
            dbPath = dbField\<rparr>
         else if pm then
           \<lparr>layout = PostMigration, migrationVersion = mv,
            postMigrationPath = Some storagePath, legacyPaths = None, dbPath = dbField\<rparr>
         else if sq \<and> \<not> pm then
           \<lparr>layout = Sqlite, migrationVersion = mv,
            postMigrationPath = None, legacyPaths = None, dbPath = Some db\<rparr>
         else if lg then
           \<lparr>layout = Legacy, migrationVersion = mv,
            postMigrationPath = None, legacyPaths = Some [projectDir], dbPath = None\<rparr>
         else
           \<lparr>layout = Unknown, migrationVersion = mv,
            postMigrationPath = None, legacyPaths = None, dbPath = None\<rparr>)"

text \<open>
  The priority list as the specification words it, on the four observations: marker
  version, post-migration tree, database file, legacy project directory.
\<close>

definition specified_layout :: "int \<Rightarrow> bool \<Rightarrow> bool \<Rightarrow> bool \<Rightarrow> layout" where
  "specified_layout mv pm sq lg =
     (if mv \<ge> 1 \<and> pm then PostMigration
      else if lg \<and> pm then Mixed
      else if sq \<and> \<not> pm \<and> \<not> lg then Sqlite
      else if lg \<and> \<not> pm then Legacy
      else Unknown)"

text \<open>Two concrete storage roots used below.\<close>

definition fs_db_and_legacy :: fs where
  "fs_db_and_legacy =
     map_of [(''/data/opencode/storage'', Dir),
             (''/data/opencode/opencode.db'', File ''''),
             (''/data/opencode/project'', Dir)]"

definition fs_bad_marker :: fs where
  "fs_bad_marker =
     map_of [(''/data/opencode/storage'', Dir),
             (''/data/opencode/storage/migration'', File ''v2''),
             (''/data/opencode/storage/session'', Dir),
             (''/data/opencode/storage/message'', Dir),
             (''/data/opencode/storage/part'', Dir)]"

subsection \<open>\<open>getOpenCodeStoragePath\<close>\<close>

text \<open>
  The process environment the function reads: three variables (unset is \<open>None\<close>), the
  platform name and the home directory. A variable that is set to the empty string is
  falsy, like an unset one.
\<close>

record Env =
  OPENCODE_STORAGE_PATH :: "string option"
  XDG_DATA_HOME :: "string option"
  LOCALAPPDATA :: "string option"
  platform :: string
  homedir :: string

definition truthy :: "string option \<Rightarrow> bool" where
  "truthy v = (case v of None \<Rightarrow> False | Some s \<Rightarrow> s \<noteq> [])"

definition defaultStoragePath :: "Env \<Rightarrow> string" where
  "defaultStoragePath env =
     (if truthy (XDG_DATA_HOME env)
      then join (join (the (XDG_DATA_HOME env)) ''opencode'') ''storage''
      else if platform env = ''darwin''
      then join (join (join (join (homedir env) ''Library'') ''Application Support'')
                   ''opencode'') ''storage''
      else if platform env = ''win32''
      then (if truthy (LOCALAPPDATA env)
            then join (join (the (LOCALAPPDATA env)) ''opencode'') ''storage''
            else join (join (join (join (homedir env) ''.local'') ''share'') ''opencode'')
                   ''storage'')
      else join (join (join (join (homedir env) ''.local'') ''share'') ''opencode'')
             ''storage'')"

definition getOpenCodeStoragePath :: "fs \<Rightarrow> Env \<Rightarrow> string option" where
  "getOpenCodeStoragePath fs env =
     (if truthy (OPENCODE_STORAGE_PATH env)
      then (let customPath = the (OPENCODE_STORAGE_PATH env)
            in if existsSync fs customPath then Some customPath else None)
      else (let storagePath = defaultStoragePath env
            in if \<not> existsSync fs storagePath then None else Some storagePath))"

definition getOpenCodeDbPath :: "fs \<Rightarrow> Env \<Rightarrow> string option" where
  "getOpenCodeDbPath fs env =
     (case getOpenCodeStoragePath fs env of
        None \<Rightarrow> None
      | Some storagePath \<Rightarrow>
          (let db = join (dirname storagePath) ''opencode.db''
           in if existsSync fs db then Some db else None))"

section \<open>The SQLite reader, \<open>opencode.sqlite-reader.ts\<close>\<close>

definition getDbPathFromStorage :: "fs \<Rightarrow> string \<Rightarrow> string option" where
  "getDbPathFromStorage fs storagePath =
     (let db = join (dirname storagePath) ''opencode.db''
      in if existsSync fs db then Some db else None)"

subsection \<open>\<open>queryDb\<close>\<close>

text \<open>
  The \<open>sqlite3\<close> process is outside the program: \<open>exec\<close> is a function from the command
  and its argument vector to what the source observes, either an exit with code, stdout
  and stderr, or a rejected promise (the ten second timeout, a spawn failure).
  \<open>parseRows\<close> is \<open>JSON.parse\<close> of the CLI's \<open>-json\<close> output, which is an array of row
  objects, read at the row type; it is \<open>None\<close> when the parse raises. Every failure lands
  in the \<open>catch\<close>, which returns no rows.
\<close>

datatype exec_result = Exited int string string | Rejected string

type_synonym exec_fn = "string \<Rightarrow> string list \<Rightarrow> exec_result"

definition queryDb :: "exec_fn \<Rightarrow> (string \<Rightarrow> 'row list option) \<Rightarrow> string \<Rightarrow> string \<Rightarrow> 'row list"
  where
  "queryDb exec parseRows db sql =
     (case exec ''sqlite3'' [''-json'', ''-readonly'', db, sql] of
        Rejected msg \<Rightarrow> []
      | Exited code stdout stderr \<Rightarrow>
          if code \<noteq> 0 then []
          else (let output = trim stdout
                in if output = [] \<or> output = ''[]'' then []
                   else (case parseRows output of None \<Rightarrow> [] | Some rows \<Rightarrow> rows)))"

subsection \<open>\<open>readSessionsFromDb\<close>\<close>

record SessionRow =
  sr_id :: string
  sr_project_id :: string
  sr_slug :: string
  sr_directory :: "string option"
  sr_title :: string
  sr_version :: string
  sr_time_created :: "int option"
  sr_time_updated :: "int option"

record OpenCodeSession =
  ses_id :: string
  ses_title :: string
  ses_directory :: string
  ses_created :: int
  ses_updated :: int
  ses_projectID :: string
  ses_slug :: string
  ses_version :: string

record SessionOptions =
  maxAgeDays :: "int option"
  cwd :: "string option"

definition sessionsSql :: string where
  "sessionsSql = ''SELECT id, project_id, slug, directory, title, version, time_created, time_updated FROM session ORDER BY time_created DESC''"

text \<open>\<open>s.replace(/\/+$/, '')\<close>: the trailing separators go.\<close>

definition stripTrailingSlashes :: "string \<Rightarrow> string" where
  "stripTrailingSlashes s = rev (dropWhile is_sep (rev s))"

definition toSession :: "SessionRow \<Rightarrow> OpenCodeSession" where
  "toSession row =
     \<lparr>ses_id = sr_id row, ses_title = sr_title row,
      ses_directory = (case sr_directory row of None \<Rightarrow> [] | Some d \<Rightarrow> d),
      ses_created = (case sr_time_created row of None \<Rightarrow> 0 | Some t \<Rightarrow> t),
      ses_updated = (case sr_time_updated row of None \<Rightarrow> 0 | Some t \<Rightarrow> t),
      ses_projectID = sr_project_id row, ses_slug = sr_slug row,
      ses_version = sr_version row\<rparr>"

definition tooOld :: "int \<Rightarrow> OpenCodeSession \<Rightarrow> bool" where
  "tooOld cutoff session = (ses_created session \<noteq> 0 \<and> ses_created session < cutoff)"

definition otherDirectory :: "string option \<Rightarrow> OpenCodeSession \<Rightarrow> bool" where
  "otherDirectory normalizedCwd session =
     (truthy normalizedCwd \<and> ses_directory session \<noteq> [] \<and>
      stripTrailingSlashes (ses_directory session) \<noteq> the normalizedCwd)"

primrec keepSessions :: "int \<Rightarrow> string option \<Rightarrow> SessionRow list \<Rightarrow> OpenCodeSession list" where
  "keepSessions cutoff normalizedCwd [] = []"
| "keepSessions cutoff normalizedCwd (row # rows) =
     (let session = toSession row
      in if tooOld cutoff session then keepSessions cutoff normalizedCwd rows
         else if otherDirectory normalizedCwd session then keepSessions cutoff normalizedCwd rows
         else session # keepSessions cutoff normalizedCwd rows)"

text \<open>\<open>now\<close> is the value of \<open>Date.now()\<close>; an absent options object is \<open>None\<close>.\<close>

definition readSessionsFromDb ::
  "exec_fn \<Rightarrow> (string \<Rightarrow> SessionRow list option) \<Rightarrow> int \<Rightarrow> string \<Rightarrow> SessionOptions option
     \<Rightarrow> OpenCodeSession list" where
  "readSessionsFromDb exec parseRows now db options =
     (let rows = queryDb exec parseRows db sessionsSql;
          days = (case options of None \<Rightarrow> 30
                  | Some opts \<Rightarrow> (case maxAgeDays opts of None \<Rightarrow> 30 | Some d \<Rightarrow> d));
          maxAgeMs = days * 24 * 60 * 60 * 1000;
          cutoff = now - maxAgeMs;
          normalizedCwd = (case options of None \<Rightarrow> None
                           | Some opts \<Rightarrow> map_option stripTrailingSlashes (cwd opts))
      in keepSessions cutoff normalizedCwd rows)"

subsection \<open>\<open>escapeSqlString\<close> and the two session-scoped queries\<close>

definition quote :: char where
  "quote = CHR 0x27"

text \<open>\<open>value.replace(/'/g, "''")\<close>.\<close>

definition escapeSqlString :: "string \<Rightarrow> string" where
  "escapeSqlString v = concat (map (\<lambda>c. if c = quote then [quote, quote] else [c]) v)"

definition messagesSql :: "string \<Rightarrow> string" where
  "messagesSql sessionId =
     (let escapedId = escapeSqlString sessionId
      in ''SELECT id, session_id, data FROM message WHERE session_id = '' @ [quote]
           @ escapedId @ [quote])"

definition partsSql :: "string \<Rightarrow> string" where
  "partsSql sessionId =
     (let escapedId = escapeSqlString sessionId
      in ''SELECT id, message_id, session_id, data FROM part WHERE session_id = '' @ [quote]
           @ escapedId @ [quote] @ '' ORDER BY id ASC'')"

text \<open>
  How SQLite reads a string literal, for stating where the session id ends up: after the
  opening quote the scanner copies characters, takes two quotes in a row as one quote
  character, and stops at a quote that is not doubled. The result is the literal's value
  and the text that follows the closing quote; \<open>None\<close> is an unterminated literal.
\<close>

fun literalBody :: "string \<Rightarrow> (string \<times> string) option" where
  "literalBody [] = None"
| "literalBody [c] = (if c = quote then Some ([], []) else None)"
| "literalBody (c # d # cs) =
     (if c = quote
      then (if d = quote
            then map_option (\<lambda>(v, rest). (quote # v, rest)) (literalBody cs)
            else Some ([], d # cs))
      else map_option (\<lambda>(v, rest). (c # v, rest)) (literalBody (d # cs)))"

definition sqlStringLiteral :: "string \<Rightarrow> (string \<times> string) option" where
  "sqlStringLiteral s =
     (case s of [] \<Rightarrow> None | c # cs \<Rightarrow> if c = quote then literalBody cs else None)"

subsection \<open>\<open>Array.prototype.sort\<close> with a comparator\<close>

text \<open>
  The language fixes the result for a comparator that is consistent: the elements in
  ascending order, equal ones in their original order (the sort is stable since ES2019).
  Stable insertion computes it: an element goes in front of the first one it does not
  exceed, and the elements are taken from the back of the array.
\<close>

primrec insertBy :: "('a \<Rightarrow> 'a \<Rightarrow> int) \<Rightarrow> 'a \<Rightarrow> 'a list \<Rightarrow> 'a list" where
  "insertBy cmp x [] = [x]"
| "insertBy cmp x (y # ys) = (if cmp x y \<le> 0 then x # y # ys else y # insertBy cmp x ys)"

definition arraySort :: "('a \<Rightarrow> 'a \<Rightarrow> int) \<Rightarrow> 'a list \<Rightarrow> 'a list" where
  "arraySort cmp xs = foldr (insertBy cmp) xs []"

subsection \<open>\<open>readMessagesFromDb\<close>\<close>

datatype json =
    JNull | JBool bool | JNum int | JStr string | JArr "json list"
  | JObj "(string \<times> json) list"

record MessageRow =
  mr_id :: string
  mr_session_id :: string
  mr_data :: string

text \<open>
  The payload of a message row as the source reads it through its casts: \<open>data.role\<close>,
  \<open>data.time?.created\<close> (a number, as \<open>OpenCodeMessage\<close> declares it) and the optional
  fields copied into the message; an absent property is \<open>None\<close>. The decoder
  \<open>parseData\<close> stands for \<open>JSON.parse(row.data)\<close> read this way, and gives \<open>None\<close> where the
  body of the \<open>try\<close> raises: a blob that is not JSON, or the document \<open>null\<close>, on which
  \<open>data.role\<close> raises.
\<close>

record MessageData =
  d_role :: "string option"
  d_time_created :: "int option"
  d_providerID :: "string option"
  d_modelID :: "string option"
  d_path :: "string list option"
  d_tokens :: "json option"
  d_cost :: "int option"
  d_agent :: "string option"
  d_model :: "json option"

datatype OpenCodeMessage =
    AssistantMessage (msg_id: string) (msg_sessionID: string) (msg_created: int)
      (msg_providerID: "string option") (msg_modelID: "string option")
      (msg_path: "string list option") (msg_tokens: "json option") (msg_cost: "int option")
      (msg_agent: "string option")
  | UserMessage (msg_id: string) (msg_sessionID: string) (msg_created: int)
      (msg_agent: "string option") (msg_model: "json option")

definition toMessage :: "MessageRow \<Rightarrow> MessageData \<Rightarrow> OpenCodeMessage" where
  "toMessage row d =
     (let created = (case d_time_created d of None \<Rightarrow> 0 | Some t \<Rightarrow> t)
      in if d_role d = Some ''assistant''
         then AssistantMessage (mr_id row) (mr_session_id row) created (d_providerID d)
                (d_modelID d) (d_path d) (d_tokens d) (d_cost d) (d_agent d)
         else UserMessage (mr_id row) (mr_session_id row) created (d_agent d) (d_model d))"

text \<open>The loop over the rows: a row whose \<open>try\<close> body raises is logged and pushes nothing.\<close>

primrec collectMessages ::
  "(string \<Rightarrow> MessageData option) \<Rightarrow> MessageRow list \<Rightarrow> OpenCodeMessage list" where
  "collectMessages parseData [] = []"
| "collectMessages parseData (row # rows) =
     (case parseData (mr_data row) of
        None \<Rightarrow> collectMessages parseData rows
      | Some d \<Rightarrow> toMessage row d # collectMessages parseData rows)"

text \<open>\<open>(a.time?.created || 0) - (b.time?.created || 0)\<close>.\<close>

definition compareCreated :: "OpenCodeMessage \<Rightarrow> OpenCodeMessage \<Rightarrow> int" where
  "compareCreated a b = or_zero (Some (msg_created a)) - or_zero (Some (msg_created b))"

definition readMessagesFromDb ::
  "exec_fn \<Rightarrow> (string \<Rightarrow> MessageRow list option) \<Rightarrow> (string \<Rightarrow> MessageData option)
     \<Rightarrow> string \<Rightarrow> string \<Rightarrow> OpenCodeMessage list" where
  "readMessagesFromDb exec parseRows parseData db sessionId =
     (let rows = queryDb exec parseRows db (messagesSql sessionId);
          messages = collectMessages parseData rows
      in arraySort compareCreated messages)"

subsection \<open>\<open>readAllPartsForSessionFromDb\<close>\<close>

record PartRow =
  pr_id :: string
  pr_message_id :: string
  pr_session_id :: string
  pr_data :: string

text \<open>
  An object is the list of its own properties; writing a property replaces the value
  where the name is already there and appends it otherwise. The payload of a part row is
  a \<open>Record<string, unknown>\<close>, and \<open>parseObject\<close> stands for \<open>JSON.parse(row.data)\<close> read
  at that type, \<open>None\<close> when it raises.
\<close>

type_synonym 'v object = "(string \<times> 'v) list"

primrec setProp :: "string \<Rightarrow> 'v \<Rightarrow> 'v object \<Rightarrow> 'v object" where
  "setProp k v [] = [(k, v)]"
| "setProp k v (p # ps) = (if fst p = k then (k, v) # ps else p # setProp k v ps)"

definition getProp :: "'v object \<Rightarrow> string \<Rightarrow> 'v option" where
  "getProp obj k = map_of obj k"

definition buildPart :: "PartRow \<Rightarrow> json object \<Rightarrow> json object" where
  "buildPart row data =
     setProp ''sessionID'' (JStr (pr_session_id row))
       (setProp ''messageID'' (JStr (pr_message_id row))
          (setProp ''id'' (JStr (pr_id row)) data))"

text \<open>
  \<open>partsMap\<close> is a plain object literal, so \<open>partsMap[key]\<close> also finds what
  \<open>Object.prototype\<close> provides under these names, all of them truthy and none of them an
  array:
\<close>

definition objectPrototypeKeys :: "string list" where
  "objectPrototypeKeys =
     [''constructor'', ''__defineGetter__'', ''__defineSetter__'', ''hasOwnProperty'',
      ''__lookupGetter__'', ''__lookupSetter__'', ''isPrototypeOf'',
      ''propertyIsEnumerable'', ''toString'', ''valueOf'', ''__proto__'',
      ''toLocaleString'']"

definition inherited :: "string \<Rightarrow> bool" where
  "inherited k = (k \<in> set objectPrototypeKeys)"

datatype js_error = SyntaxError | TypeError

text \<open>
  The body of the \<open>try\<close> for one row. The array is created when the lookup is falsy, and
  \<open>push\<close> needs an own array under the key: under an inherited name the lookup is truthy,
  no array is created and the call raises, with \<open>partsMap\<close> not yet touched.
\<close>

definition pushPart ::
  "(string \<Rightarrow> json object option) \<Rightarrow> (json object list) object \<Rightarrow> PartRow
     \<Rightarrow> js_error + (json object list) object" where
  "pushPart parseObject partsMap row =
     (case parseObject (pr_data row) of
        None \<Rightarrow> Inl SyntaxError
      | Some data \<Rightarrow>
          (let part = buildPart row data;
               key = pr_message_id row;
               created = (if getProp partsMap key = None \<and> \<not> inherited key
                          then setProp key [] partsMap else partsMap)
           in case getProp created key of
                None \<Rightarrow> Inl TypeError
              | Some parts \<Rightarrow> Inr (setProp key (parts @ [part]) created)))"

primrec collectParts ::
  "(string \<Rightarrow> json object option) \<Rightarrow> (json object list) object \<Rightarrow> PartRow list
     \<Rightarrow> (json object list) object" where
  "collectParts parseObject partsMap [] = partsMap"
| "collectParts parseObject partsMap (row # rows) =
     collectParts parseObject
       (case pushPart parseObject partsMap row of Inl _ \<Rightarrow> partsMap | Inr m \<Rightarrow> m) rows"

definition readAllPartsForSessionFromDb ::
  "exec_fn \<Rightarrow> (string \<Rightarrow> PartRow list option) \<Rightarrow> (string \<Rightarrow> json object option)
     \<Rightarrow> string \<Rightarrow> string \<Rightarrow> (json object list) object" where
  "readAllPartsForSessionFromDb exec parseRows parseObject db sessionId =
     (let rows = queryDb exec parseRows db (partsSql sessionId)
      in collectParts parseObject [] rows)"

section \<open>The metrics queue, the aggregator and the syncer\<close>

text \<open>
  Modelled from the spec: \<open>MetricDelta\<close> and its sync state (section 3 of the
  specification). The type lives in \<open>agents/core/metrics/types\<close>, which is not among the
  source files; only the integration test that builds such records is.
\<close>

datatype SyncStatus = Pending | Synced | Failed

record Tokens =
  tk_input :: nat
  tk_output :: nat
  tk_cacheRead :: nat
  tk_cacheCreation :: nat

datatype FileOpType = OpWrite | OpRead | OpEdit | OpDelete

record FileOperation =
  op_type :: FileOpType
  op_path :: string
  linesAdded :: "nat option"
  linesRemoved :: "nat option"

record ToolStatus =
  ts_success :: nat
  ts_failure :: nat

record MetricDelta =
  recordId :: string
  sessionId :: string
  agentSessionId :: string
  timestamp :: int
  tokens :: Tokens
  tools :: "(string \<times> nat) list"
  toolStatus :: "(string \<times> ToolStatus) list"
  fileOperations :: "FileOperation list"
  models :: "string list"
  userPrompts :: "(string \<times> nat) list"
  syncStatus :: SyncStatus
  syncAttempts :: nat
  syncedAt :: "int option"

text \<open>
  Modelled from the spec: the aggregated metric object sent to the remote endpoint
  (section 4.6), with the counters the specification names. Its type
  (\<open>SessionMetric\<close> in \<open>metrics-types\<close>) is not among the source files. The
  representative model is left out: the specification leaves its choice open.
\<close>

record SessionMetric =
  total_user_prompts :: nat
  total_input_tokens :: nat
  total_output_tokens :: nat
  total_cache_read_input_tokens :: nat
  total_cache_creation_tokens :: nat
  total_tool_calls :: nat
  successful_tool_calls :: nat
  failed_tool_calls :: nat
  files_created :: nat
  files_modified :: nat
  files_deleted :: nat
  total_lines_added :: nat
  total_lines_removed :: nat

text \<open>
  Modelled from the spec: \<open>listPending\<close> of the durable queue (section 4.5), all records
  of the session's queue file with status pending, in append order. The queue
  implementation is not among the source files.
\<close>

definition listPending :: "MetricDelta list \<Rightarrow> MetricDelta list" where
  "listPending queue = filter (\<lambda>d. syncStatus d = Pending) queue"

text \<open>
  Modelled from the spec: the aggregator (section 4.6), which folds the pending deltas
  into one summary by summing token fields, tool counts, tool outcomes, file operations
  per type, line counts and prompt counts. The aggregator is not among the source files.
\<close>

definition countOps :: "FileOpType \<Rightarrow> MetricDelta \<Rightarrow> nat" where
  "countOps t d = length (filter (\<lambda>op. op_type op = t) (fileOperations d))"

definition orZeroNat :: "nat option \<Rightarrow> nat" where
  "orZeroNat x = (case x of None \<Rightarrow> 0 | Some n \<Rightarrow> n)"

definition aggregate :: "MetricDelta list \<Rightarrow> SessionMetric" where
  "aggregate deltas =
     \<lparr>total_user_prompts = sum_list (map (\<lambda>d. sum_list (map snd (userPrompts d))) deltas),
      total_input_tokens = sum_list (map (\<lambda>d. tk_input (tokens d)) deltas),
      total_output_tokens = sum_list (map (\<lambda>d. tk_output (tokens d)) deltas),
      total_cache_read_input_tokens = sum_list (map (\<lambda>d. tk_cacheRead (tokens d)) deltas),
      total_cache_creation_tokens = sum_list (map (\<lambda>d. tk_cacheCreation (tokens d)) deltas),
      total_tool_calls = sum_list (map (\<lambda>d. sum_list (map snd (tools d))) deltas),
      successful_tool_calls =
        sum_list (map (\<lambda>d. sum_list (map (\<lambda>t. ts_success (snd t)) (toolStatus d))) deltas),
      failed_tool_calls =
        sum_list (map (\<lambda>d. sum_list (map (\<lambda>t. ts_failure (snd t)) (toolStatus d))) deltas),
      files_created = sum_list (map (countOps OpWrite) deltas),
      files_modified = sum_list (map (countOps OpEdit) deltas),
      files_deleted = sum_list (map (countOps OpDelete) deltas),
      total_lines_added =
        sum_list (map (\<lambda>d. sum_list (map (\<lambda>op. orZeroNat (linesAdded op)) (fileOperations d)))
                    deltas),
      total_lines_removed =
        sum_list (map (\<lambda>d. sum_list (map (\<lambda>op. orZeroNat (linesRemoved op)) (fileOperations d)))
                    deltas)\<rparr>"

text \<open>
  Modelled from the spec: the queue's three state transitions (section 4.5).
  \<open>markSynced\<close> sets the status and \<open>syncedAt\<close> and counts the attempt, \<open>markRetry\<close> counts
  the attempt and leaves the status, \<open>markFailed\<close> sets the status. The queue
  implementation is not among the source files.
\<close>

definition markSynced :: "string list \<Rightarrow> int \<Rightarrow> MetricDelta list \<Rightarrow> MetricDelta list" where
  "markSynced recordIds at queue =
     map (\<lambda>d. if recordId d \<in> set recordIds
               then d\<lparr>syncStatus := Synced, syncAttempts := syncAttempts d + 1,
                      syncedAt := Some at\<rparr>
               else d) queue"

definition markRetry :: "string list \<Rightarrow> MetricDelta list \<Rightarrow> MetricDelta list" where
  "markRetry recordIds queue =
     map (\<lambda>d. if recordId d \<in> set recordIds then d\<lparr>syncAttempts := syncAttempts d + 1\<rparr>
               else d) queue"

definition markFailed :: "string list \<Rightarrow> MetricDelta list \<Rightarrow> MetricDelta list" where
  "markFailed recordIds queue =
     map (\<lambda>d. if recordId d \<in> set recordIds then d\<lparr>syncStatus := Failed\<rparr> else d) queue"

text \<open>
  Modelled from the spec: the syncer's entry point \<open>sync(sessionId, context)\<close> (sections
  4.7 and 6); \<open>SessionSyncer\<close> is not among the source files, only its integration test
  is, from which the two message texts are taken. The queue files are a store from
  session ids to record lists, the transport is a function from the metric object to
  the class of the remote answer, and \<open>now\<close> is the time written into \<open>syncedAt\<close>. The
  result lists every metric object handed to the transport, one entry per POST.
  A client error counts its attempt and fails the records; a server error or transport
  failure counts the attempt and fails the records that have reached the ceiling of
  three attempts. The specification fixes the success flag for the empty and the
  successful run; on a failed send the flag here is that of the send.
\<close>

datatype Response = Status2xx | Status4xx | Status5xx | TransportFailure

record SyncResult =
  success :: bool
  message :: string
  posts :: "SessionMetric list"
  queues :: "string \<Rightarrow> MetricDelta list"

definition maxAttempts :: nat where
  "maxAttempts = 3"

definition exhausted :: "string list \<Rightarrow> MetricDelta list \<Rightarrow> string list" where
  "exhausted recordIds queue =
     map recordId (filter (\<lambda>d. recordId d \<in> set recordIds \<and> syncAttempts d \<ge> maxAttempts) queue)"

definition sync ::
  "(SessionMetric \<Rightarrow> Response) \<Rightarrow> int \<Rightarrow> (string \<Rightarrow> MetricDelta list) \<Rightarrow> string \<Rightarrow> SyncResult"
  where
  "sync transport now store sid =
     (let queue = store sid;
          pendingDeltas = listPending queue
      in if pendingDeltas = [] then
           \<lparr>success = True, message = ''No pending deltas to sync'', posts = [],
            queues = store\<rparr>
         else
           (let metric = aggregate pendingDeltas;
                recordIds = map recordId pendingDeltas
            in case transport metric of
                 Status2xx \<Rightarrow>
                   \<lparr>success = True, message = ''Synced'', posts = [metric],
                    queues = store(sid := markSynced recordIds now queue)\<rparr>
               | Status4xx \<Rightarrow>
                   \<lparr>success = False, message = ''Sync failed'', posts = [metric],
                    queues = store(sid := markFailed recordIds (markRetry recordIds queue))\<rparr>
               | _ \<Rightarrow>
                   (let retried = markRetry recordIds queue
                    in \<lparr>success = False, message = ''Sync failed'', posts = [metric],
                        queues = store(sid := markFailed (exhausted recordIds retried) retried)\<rparr>)))"

text \<open>The queue invariants of section 3: record ids are unique, and \<open>syncedAt\<close> is present
  exactly on the synced records.\<close>

definition syncedAtIffSynced :: "MetricDelta list \<Rightarrow> bool" where
  "syncedAtIffSynced queue = list_all (\<lambda>d. (syncedAt d \<noteq> None) = (syncStatus d = Synced)) queue"

definition queueInvariant :: "MetricDelta list \<Rightarrow> bool" where
  "queueInvariant queue = (distinct (map recordId queue) \<and> syncedAtIffSynced queue)"

text \<open>
  Modelled from the spec: \<open>append\<close> of the durable queue (section 4.5), which adds a
  record as pending with no attempt and is a no-op on a record id already present. The
  queue implementation is not among the source files.
\<close>

definition appendDelta :: "MetricDelta \<Rightarrow> MetricDelta list \<Rightarrow> MetricDelta list" where
  "appendDelta delta queue =
     (if recordId delta \<in> set (map recordId queue) then queue
      else queue @ [delta\<lparr>syncStatus := Pending, syncAttempts := 0, syncedAt := None\<rparr>])"

section \<open>Notions used to state the properties\<close>

text \<open>The marker file is there, but reading it fails or its content is no integer.\<close>

definition markerUnusable :: "fs \<Rightarrow> string \<Rightarrow> bool" where
  "markerUnusable fs storagePath =
     (case fs (join storagePath ''migration'') of
        None \<Rightarrow> False
      | Some (File content) \<Rightarrow> parseInt10 (trim content) = None
      | Some _ \<Rightarrow> True)"

text \<open>The path \<open>getOpenCodeStoragePath\<close> tests: the override when set, else the default.\<close>

definition storageCandidate :: "Env \<Rightarrow> string" where
  "storageCandidate env =
     (if truthy (OPENCODE_STORAGE_PATH env) then the (OPENCODE_STORAGE_PATH env)
      else defaultStoragePath env)"

text \<open>
  The database gives nothing: the call was rejected (timeout, no such program), the CLI
  left with a non-zero code (as it does on a path that is not a database), or it printed
  nothing.
\<close>

definition unavailable :: "exec_result \<Rightarrow> bool" where
  "unavailable r =
     (case r of
        Rejected _ \<Rightarrow> True
      | Exited code out err \<Rightarrow> code \<noteq> 0 \<or> trim out = [])"

text \<open>The rows of one message whose payload parses, as parts, in row order.\<close>

definition partsFor ::
  "(string \<Rightarrow> json object option) \<Rightarrow> string \<Rightarrow> PartRow list \<Rightarrow> json object list" where
  "partsFor parseObject k rows =
     map (\<lambda>r. buildPart r (the (parseObject (pr_data r))))
       (filter (\<lambda>r. pr_message_id r = k \<and> parseObject (pr_data r) \<noteq> None) rows)"

definition parses :: "(string \<Rightarrow> 'd option) \<Rightarrow> string \<Rightarrow> bool" where
  "parses parseData blob = (parseData blob \<noteq> None)"

text \<open>The rows \<open>queryDb\<close> makes of what one run of the CLI gave.\<close>

definition rowsOfResult :: "(string \<Rightarrow> 'row list option) \<Rightarrow> exec_result \<Rightarrow> 'row list" where
  "rowsOfResult parseRows r =
     (case r of
        Rejected msg \<Rightarrow> []
      | Exited code stdout stderr \<Rightarrow>
          if code \<noteq> 0 then []
          else (let output = trim stdout
                in if output = [] \<or> output = ''[]'' then []
                   else (case parseRows output of None \<Rightarrow> [] | Some rows \<Rightarrow> rows)))"

section \<open>Concrete inputs\<close>

definition fs_marked :: fs where
  "fs_marked =
     map_of [(''/data/opencode/storage'', Dir),
             (''/data/opencode/storage/migration'', File [CHR ''2'', CHR 0x0A]),
             (''/data/opencode/storage/session'', Dir),
             (''/data/opencode/storage/message'', Dir),
             (''/data/opencode/storage/part'', Dir),
             (''/data/opencode/project'', Dir)]"

definition env_linux :: Env where
  "env_linux =
     \<lparr>OPENCODE_STORAGE_PATH = None, XDG_DATA_HOME = None, LOCALAPPDATA = None,
      platform = ''linux'', homedir = ''/home/dev''\<rparr>"

definition exec_failing :: exec_fn where
  "exec_failing cmd args =
     (if last args = sessionsSql then Rejected ''timed out''
      else Exited 1 [] ''unable to open database file'')"

definition exec_rows :: exec_fn where
  "exec_rows cmd args = Exited 0 '' rows '' []"

definition exec_rows_or_fail :: exec_fn where
  "exec_rows_or_fail cmd args =
     (if cmd = ''sqlite3'' \<and> length args = 4 \<and> take 6 (last args) = ''SELECT''
      then Exited 0 '' rows '' [] else Rejected ''refused'')"

definition message_rows :: "MessageRow list" where
  "message_rows =
     [\<lparr>mr_id = ''m1'', mr_session_id = ''s1'', mr_data = ''late''\<rparr>,
      \<lparr>mr_id = ''m2'', mr_session_id = ''s1'', mr_data = ''broken''\<rparr>,
      \<lparr>mr_id = ''m3'', mr_session_id = ''s1'', mr_data = ''early''\<rparr>,
      \<lparr>mr_id = ''m4'', mr_session_id = ''s1'', mr_data = ''early''\<rparr>]"

definition parse_message_rows :: "string \<Rightarrow> MessageRow list option" where
  "parse_message_rows out = (if out = ''rows'' then Some message_rows else None)"

definition parse_message :: "string \<Rightarrow> MessageData option" where
  "parse_message blob =
     (if blob = ''late'' then
        Some \<lparr>d_role = Some ''assistant'', d_time_created = Some 20, d_providerID = None,
              d_modelID = Some ''claude'', d_path = None, d_tokens = None, d_cost = None,
              d_agent = None, d_model = None\<rparr>
      else if blob = ''early'' then
        Some \<lparr>d_role = Some ''user'', d_time_created = Some 10, d_providerID = None,
              d_modelID = None, d_path = None, d_tokens = None, d_cost = None,
              d_agent = None, d_model = None\<rparr>
      else None)"

definition part_rows :: "PartRow list" where
  "part_rows =
     [\<lparr>pr_id = ''p1'', pr_message_id = ''m1'', pr_session_id = ''s1'', pr_data = ''clash''\<rparr>,
      \<lparr>pr_id = ''p2'', pr_message_id = ''m1'', pr_session_id = ''s1'', pr_data = ''broken''\<rparr>,
      \<lparr>pr_id = ''p3'', pr_message_id = ''m2'', pr_session_id = ''s1'', pr_data = ''plain''\<rparr>]"

definition parse_part_rows :: "string \<Rightarrow> PartRow list option" where
  "parse_part_rows out = (if out = ''rows'' then Some part_rows else None)"

definition parse_part :: "string \<Rightarrow> json object option" where
  "parse_part blob =
     (if blob = ''clash'' then
        Some [(''id'', JStr ''payload-id''), (''type'', JStr ''text''),
              (''sessionID'', JNum 7)]
      else if blob = ''plain'' then Some [(''type'', JStr ''tool'')]
      else None)"

definition part_rows_inherited :: "PartRow list" where
  "part_rows_inherited =
     [\<lparr>pr_id = ''p1'', pr_message_id = ''constructor'', pr_session_id = ''s1'',
       pr_data = ''plain''\<rparr>,
      \<lparr>pr_id = ''p2'', pr_message_id = ''m2'', pr_session_id = ''s1'', pr_data = ''plain''\<rparr>]"

definition parse_part_rows_inherited :: "string \<Rightarrow> PartRow list option" where
  "parse_part_rows_inherited out = (if out = ''rows'' then Some part_rows_inherited else None)"

text \<open>A CLI that answers two statements only, each written out in full, and refuses
  every other call.\<close>

definition exec_exact :: exec_fn where
  "exec_exact cmd args =
     (if cmd = ''sqlite3'' \<and>
         (args = [''-json'', ''-readonly'', ''/db'',
                  ''SELECT id, session_id, data FROM message WHERE session_id = '' @
                  [quote, CHR ''a'', quote, quote, CHR '';'', quote, quote, quote, quote,
                   CHR ''b'', quote]] \<or>
          args = [''-json'', ''-readonly'', ''/db'',
                  ''SELECT id, message_id, session_id, data FROM part WHERE session_id = '' @
                  [quote, CHR ''a'', quote, quote, CHR '';'', quote, quote, quote, quote,
                   CHR ''b'', quote] @ '' ORDER BY id ASC''])
      then Exited 0 '' rows '' [] else Rejected ''refused'')"

definition quoted_id :: string where
  "quoted_id = [CHR ''a'', quote, CHR '';'', quote, quote, CHR ''b'']"

definition mkDelta :: "string \<Rightarrow> nat \<Rightarrow> nat \<Rightarrow> (string \<times> nat) list \<Rightarrow> MetricDelta" where
  "mkDelta rid inp out tls =
     \<lparr>recordId = rid, sessionId = ''test-syncer-metrics'', agentSessionId = ''test-session-1'',
      timestamp = 0,
      tokens = \<lparr>tk_input = inp, tk_output = out, tk_cacheRead = 0, tk_cacheCreation = 0\<rparr>,
      tools = tls,
      toolStatus = map (\<lambda>t. (fst t, \<lparr>ts_success = snd t, ts_failure = 0\<rparr>)) tls,
      fileOperations = [], models = [''anthropic/claude-sonnet-4-6''], userPrompts = [],
      syncStatus = Pending, syncAttempts = 0, syncedAt = None\<rparr>"

definition two_pending :: "string \<Rightarrow> MetricDelta list" where
  "two_pending sid =
     (if sid = ''test-syncer-metrics''
      then [mkDelta ''delta-1'' 500 250 [(''write'', 1)],
            mkDelta ''delta-2'' 300 150 [(''read'', 1)]]
      else [])"

definition one_synced :: "string \<Rightarrow> MetricDelta list" where
  "one_synced sid =
     (if sid = ''test-syncer-empty''
      then [(mkDelta ''delta-1'' 100 50 [])\<lparr>syncStatus := Synced, syncAttempts := 1,
                                            syncedAt := Some 5\<rparr>]
      else [])"

definition one_pending :: "string \<Rightarrow> MetricDelta list" where
  "one_pending sid =
     (if sid = ''test-syncer-metrics''
      then [mkDelta ''delta-1'' 1000 500 [(''write'', 1), (''read'', 1)]]
      else [])"

definition always :: "Response \<Rightarrow> SessionMetric \<Rightarrow> Response" where
  "always r metric = r"

section \<open>Storage layout detection\<close>

lemma layout_detect:
  "layout (detectStorageLayout fs root) =
     (if hasPostMigration fs root
      then (if readMigrationVersion fs root \<ge> 1 then PostMigration
            else if hasLegacy fs root then Mixed else PostMigration)
      else if hasSqlite fs root then Sqlite
      else if hasLegacy fs root then Legacy
      else Unknown)"
  by (simp add: detectStorageLayout_def Let_def)

text \<open>
  C4, as stated, fails. With the database file and the legacy project directory both
  present and no post-migration tree, the source answers \<open>sqlite\<close>, where the stated list
  wants the file-based trees absent for \<open>sqlite\<close> and gives \<open>legacy\<close>. With a complete
  post-migration tree, a marker that is no integer and no legacy directory, the source
  answers \<open>post-migration\<close>, where the stated list has no rule left but \<open>unknown\<close>.
\<close>

theorem layout_priority_counterexample:
  "layout (detectStorageLayout fs_db_and_legacy ''/data/opencode/storage'') = Sqlite \<and>
   specified_layout (readMigrationVersion fs_db_and_legacy ''/data/opencode/storage'')
     (hasPostMigration fs_db_and_legacy ''/data/opencode/storage'')
     (hasSqlite fs_db_and_legacy ''/data/opencode/storage'')
     (hasLegacy fs_db_and_legacy ''/data/opencode/storage'') = Legacy \<and>
   layout (detectStorageLayout fs_bad_marker ''/data/opencode/storage'') = PostMigration \<and>
   specified_layout (readMigrationVersion fs_bad_marker ''/data/opencode/storage'')
     (hasPostMigration fs_bad_marker ''/data/opencode/storage'')
     (hasSqlite fs_bad_marker ''/data/opencode/storage'')
     (hasLegacy fs_bad_marker ''/data/opencode/storage'') = Unknown"
  by code_simp

text \<open>
  C4, amended: for every storage root, \<open>detectStorageLayout\<close> classifies in this order.
  A complete post-migration tree (\<open>session/\<close>, \<open>message/\<close>, \<open>part/\<close>) gives
  \<open>post-migration\<close> when the marker is at least 1, else \<open>mixed\<close> when the legacy project
  directory is present too, else \<open>post-migration\<close> again. Without that tree, the database
  file one directory above the root gives \<open>sqlite\<close>, whether or not the legacy directory
  is there; else the legacy directory gives \<open>legacy\<close>; else the answer is \<open>unknown\<close>. So the
  source agrees with the stated list except on the two kinds of roots of the
  counterexample.
\<close>

theorem detectStorageLayout_priority:
  "layout (detectStorageLayout fs root) =
     (if hasPostMigration fs root
      then (if readMigrationVersion fs root \<ge> 1 then PostMigration
            else if hasLegacy fs root then Mixed else PostMigration)
      else if hasSqlite fs root then Sqlite
      else if hasLegacy fs root then Legacy
      else Unknown) \<and>
   layout (detectStorageLayout fs root) =
     (if hasPostMigration fs root \<and> readMigrationVersion fs root < 1 \<and> \<not> hasLegacy fs root
      then PostMigration
      else if \<not> hasPostMigration fs root \<and> hasSqlite fs root \<and> hasLegacy fs root
      then Sqlite
      else specified_layout (readMigrationVersion fs root) (hasPostMigration fs root)
             (hasSqlite fs root) (hasLegacy fs root))"
  by (simp add: layout_detect specified_layout_def)

theorem detectStorageLayout_priority_witness:
  "hasPostMigration fs_marked ''/data/opencode/storage'' \<and>
   hasLegacy fs_marked ''/data/opencode/storage'' \<and>
   readMigrationVersion fs_marked ''/data/opencode/storage'' = 2 \<and>
   layout (detectStorageLayout fs_marked ''/data/opencode/storage'') = PostMigration"
proof -
  have pm: "hasPostMigration fs_marked ''/data/opencode/storage''"
    by code_simp
  have lg: "hasLegacy fs_marked ''/data/opencode/storage''"
    by code_simp
  have mv: "readMigrationVersion fs_marked ''/data/opencode/storage'' = 2"
    by code_simp
  have "layout (detectStorageLayout fs_marked ''/data/opencode/storage'') = PostMigration"
    using detectStorageLayout_priority[of fs_marked "''/data/opencode/storage''"] pm mv
    by simp
  with pm lg mv show ?thesis by simp
qed

lemma marker_path_distinct:
  "join root ''session'' \<noteq> join root ''migration''"
  "join root ''message'' \<noteq> join root ''migration''"
  "join root ''part'' \<noteq> join root ''migration''"
  "join d ''opencode.db'' \<noteq> join root ''migration''"
  "join d ''project'' \<noteq> join root ''migration''"
proof -
  show "join root ''session'' \<noteq> join root ''migration''" by (simp add: join_def)
  show "join root ''message'' \<noteq> join root ''migration''" by (simp add: join_def)
  show "join root ''part'' \<noteq> join root ''migration''" by (simp add: join_def)
  show "join d ''opencode.db'' \<noteq> join root ''migration''"
  proof
    assume "join d ''opencode.db'' = join root ''migration''"
    then have "last (join d ''opencode.db'') = last (join root ''migration'')" by simp
    then show False by (simp add: join_def)
  qed
  show "join d ''project'' \<noteq> join root ''migration''"
  proof
    assume "join d ''project'' = join root ''migration''"
    then have "last (join d ''project'') = last (join root ''migration'')" by simp
    then show False by (simp add: join_def)
  qed
qed

lemma unusable_version:
  assumes "markerUnusable fs root"
  shows "readMigrationVersion fs root = 0"
  using assms
  by (auto simp: markerUnusable_def readMigrationVersion_def readFile_def existsSync_def
        or_zero_def Let_def split: option.splits node.splits)

lemma probes_without_marker:
  "hasPostMigration (fs(join root ''migration'' := None)) root = hasPostMigration fs root"
  "hasSqlite (fs(join root ''migration'' := None)) root = hasSqlite fs root"
  "hasLegacy (fs(join root ''migration'' := None)) root = hasLegacy fs root"
  "readMigrationVersion (fs(join root ''migration'' := None)) root = 0"
  by (simp_all add: marker_path_distinct hasPostMigration_def hasSqlite_def hasLegacy_def
        existsSync_def readMigrationVersion_def Let_def)

text \<open>
  C5: whenever the marker file \<open>migration\<close> exists but cannot be read (it is a directory,
  or the read is refused) or its trimmed content does not start with an integer,
  \<open>detectStorageLayout\<close> reports migration version 0 and returns the very result it
  returns for the same storage root without the marker file. The function is total: the
  failed read is the \<open>catch\<close> branch of \<open>readMigrationVersion\<close>, no error leaves it.
\<close>

theorem unusable_marker_is_version_zero:
  assumes "markerUnusable fs root"
  shows "migrationVersion (detectStorageLayout fs root) = 0 \<and>
         detectStorageLayout fs root =
           detectStorageLayout (fs(join root ''migration'' := None)) root \<and>
         layout (detectStorageLayout fs root) =
           (if hasPostMigration fs root
            then (if hasLegacy fs root then Mixed else PostMigration)
            else if hasSqlite fs root then Sqlite
            else if hasLegacy fs root then Legacy
            else Unknown)"
  using unusable_version[OF assms]
  by (simp add: detectStorageLayout_def probes_without_marker Let_def)

theorem unusable_marker_is_version_zero_witness:
  "markerUnusable fs_bad_marker ''/data/opencode/storage'' \<and>
   migrationVersion (detectStorageLayout fs_bad_marker ''/data/opencode/storage'') = 0 \<and>
   layout (detectStorageLayout fs_bad_marker ''/data/opencode/storage'') = PostMigration"
proof -
  have h: "markerUnusable fs_bad_marker ''/data/opencode/storage''"
    by code_simp
  have l: "layout (detectStorageLayout fs_bad_marker ''/data/opencode/storage'') = PostMigration"
    by code_simp
  have v: "migrationVersion (detectStorageLayout fs_bad_marker ''/data/opencode/storage'') = 0"
    using unusable_marker_is_version_zero[OF h] by (rule conjunct1)
  show ?thesis using h l v by blast
qed

section \<open>Reading messages: order and skipped rows\<close>

lemma insertBy_insort_key:
  assumes "\<And>a b. (cmp a b \<le> 0) = (f a \<le> f b)"
  shows "insertBy cmp x ys = insort_key f x ys"
  by (induction ys) (simp_all add: assms)

lemma arraySort_sort_key:
  assumes "\<And>a b. (cmp a b \<le> 0) = (f a \<le> f b)"
  shows "arraySort cmp xs = sort_key f xs"
  unfolding arraySort_def sort_key_def
  by (induction xs) (simp_all add: insertBy_insort_key[OF assms])

lemma compareCreated_sign:
  "(compareCreated a b \<le> 0) = (msg_created a \<le> msg_created b)"
  by (simp add: compareCreated_def or_zero_def)

lemma arraySort_created: "arraySort compareCreated ms = sort_key msg_created ms"
  by (rule arraySort_sort_key) (rule compareCreated_sign)

lemma collectMessages_map_filter:
  "collectMessages parseData rows =
     map (\<lambda>r. toMessage r (the (parseData (mr_data r))))
       (filter (\<lambda>r. parses parseData (mr_data r)) rows)"
  by (induction rows) (auto simp: parses_def split: option.splits)

text \<open>
  C6: for every answer of the database, the list \<open>readMessagesFromDb\<close> returns is in
  ascending order of creation time, and the messages of any one creation time stand in
  the order in which the loop collected them, which is the row order. The list is the
  stable sort of the collected messages by creation time, so the output is a function of
  the rows alone. Creation times are numbers, as the message type declares them.
\<close>

theorem readMessagesFromDb_sorted_stable:
  "sorted (map msg_created (readMessagesFromDb exec parseRows parseData db sid)) \<and>
   (\<forall>t. filter (\<lambda>m. msg_created m = t) (readMessagesFromDb exec parseRows parseData db sid) =
        filter (\<lambda>m. msg_created m = t)
          (collectMessages parseData (queryDb exec parseRows db (messagesSql sid)))) \<and>
   readMessagesFromDb exec parseRows parseData db sid =
     sort_key msg_created
       (collectMessages parseData (queryDb exec parseRows db (messagesSql sid))) \<and>
   collectMessages parseData (queryDb exec parseRows db (messagesSql sid)) =
     map (\<lambda>r. toMessage r (the (parseData (mr_data r))))
       (filter (\<lambda>r. parses parseData (mr_data r))
          (queryDb exec parseRows db (messagesSql sid)))"
  using collectMessages_map_filter[of parseData "queryDb exec parseRows db (messagesSql sid)"]
  by (simp add: readMessagesFromDb_def Let_def arraySort_created sort_key_stable)

theorem readMessagesFromDb_sorted_stable_witness:
  "map msg_id (readMessagesFromDb exec_rows parse_message_rows parse_message ''/db'' ''s1'') =
     [''m3'', ''m4'', ''m1''] \<and>
   map msg_created (readMessagesFromDb exec_rows parse_message_rows parse_message ''/db'' ''s1'') =
     [10, 10, 20] \<and>
   sorted (map msg_created
     (readMessagesFromDb exec_rows parse_message_rows parse_message ''/db'' ''s1''))"
proof -
  have ids: "map msg_id
      (readMessagesFromDb exec_rows parse_message_rows parse_message ''/db'' ''s1'') =
        [''m3'', ''m4'', ''m1'']"
    by code_simp
  have times: "map msg_created
      (readMessagesFromDb exec_rows parse_message_rows parse_message ''/db'' ''s1'') =
        [10, 10, 20]"
    by code_simp
  have "sorted (map msg_created
      (readMessagesFromDb exec_rows parse_message_rows parse_message ''/db'' ''s1''))"
    using readMessagesFromDb_sorted_stable[of exec_rows parse_message_rows parse_message
        "''/db''" "''s1''"]
    by (rule conjunct1)
  with ids times show ?thesis by blast
qed

section \<open>Reading parts: grouping, skipped rows and the column values\<close>

lemma getProp_setProp:
  "getProp (setProp k v obj) k' = (if k' = k then Some v else getProp obj k')"
  by (induction obj) (auto simp: getProp_def)

lemma partsFor_Cons:
  "partsFor parseObject k (row # rows) =
     partsFor parseObject k [row] @ partsFor parseObject k rows"
  by (simp add: partsFor_def)

lemma getProp_pushPart:
  "getProp (case pushPart parseObject acc row of Inl _ \<Rightarrow> acc | Inr m \<Rightarrow> m) k =
     (case getProp acc k of
        Some ps \<Rightarrow> Some (ps @ partsFor parseObject k [row])
      | None \<Rightarrow> if inherited k \<or> partsFor parseObject k [row] = [] then None
                else Some (partsFor parseObject k [row]))"
  by (auto simp: pushPart_def partsFor_def getProp_setProp Let_def split: option.splits)

lemma getProp_collectParts:
  "getProp (collectParts parseObject acc rows) k =
     (case getProp acc k of
        Some ps \<Rightarrow> Some (ps @ partsFor parseObject k rows)
      | None \<Rightarrow> if inherited k \<or> partsFor parseObject k rows = [] then None
                else Some (partsFor parseObject k rows))"
proof (induction rows arbitrary: acc)
  case Nil
  then show ?case by (simp add: partsFor_def split: option.splits)
next
  case (Cons row rows)
  show ?case
    by (simp add: Cons.IH getProp_pushPart partsFor_Cons[of parseObject k row rows]
          split: option.splits)
qed

lemma getProp_readAllParts:
  "getProp (readAllPartsForSessionFromDb exec parseRows parseObject db sid) k =
     (if inherited k \<or> partsFor parseObject k (queryDb exec parseRows db (partsSql sid)) = []
      then None
      else Some (partsFor parseObject k (queryDb exec parseRows db (partsSql sid))))"
  using getProp_collectParts[of parseObject "[]" "queryDb exec parseRows db (partsSql sid)" k]
  by (simp add: readAllPartsForSessionFromDb_def Let_def getProp_def)



text \<open>
  What the two readers return. \<open>readMessagesFromDb\<close> returns exactly one message for
  each row whose blob parses, built from that row, and nothing for the others.
  \<open>readAllPartsForSessionFromDb\<close> holds under a message id the parts of the rows of that
  message that parse, in row order, unless the id is a name that \<open>Object.prototype\<close>
  defines: under such a name it holds nothing. Both functions are total: what a row
  raises is caught in the loop, no error leaves it.
\<close>

lemma readers_return_parsed_rows:
  "readMessagesFromDb exec parseRows parseData db sid =
     arraySort compareCreated
       (map (\<lambda>r. toMessage r (the (parseData (mr_data r))))
          (filter (\<lambda>r. parses parseData (mr_data r))
             (queryDb exec parseRows db (messagesSql sid)))) \<and>
   length (readMessagesFromDb exec parseRows parseData db sid) =
     length (filter (\<lambda>r. parses parseData (mr_data r))
               (queryDb exec parseRows db (messagesSql sid))) \<and>
   getProp (readAllPartsForSessionFromDb exec parseRows' parseObject db sid) k =
     (if inherited k \<or> partsFor parseObject k (queryDb exec parseRows' db (partsSql sid)) = []
      then None
      else Some (partsFor parseObject k (queryDb exec parseRows' db (partsSql sid)))) \<and>
   partsFor parseObject k (queryDb exec parseRows' db (partsSql sid)) =
     map (\<lambda>r. buildPart r (the (parseObject (pr_data r))))
       (filter (\<lambda>r. pr_message_id r = k \<and> parses parseObject (pr_data r))
          (queryDb exec parseRows' db (partsSql sid)))"
proof -
  have "readMessagesFromDb exec parseRows parseData db sid =
     arraySort compareCreated
       (map (\<lambda>r. toMessage r (the (parseData (mr_data r))))
          (filter (\<lambda>r. parses parseData (mr_data r))
             (queryDb exec parseRows db (messagesSql sid))))"
    by (simp add: readMessagesFromDb_def Let_def collectMessages_map_filter)
  moreover from this
  have "length (readMessagesFromDb exec parseRows parseData db sid) =
     length (filter (\<lambda>r. parses parseData (mr_data r))
               (queryDb exec parseRows db (messagesSql sid)))"
    by (simp add: arraySort_created)
  moreover have "partsFor parseObject k (queryDb exec parseRows' db (partsSql sid)) =
     map (\<lambda>r. buildPart r (the (parseObject (pr_data r))))
       (filter (\<lambda>r. pr_message_id r = k \<and> parses parseObject (pr_data r))
          (queryDb exec parseRows' db (partsSql sid)))"
    by (simp add: partsFor_def parses_def)
  ultimately show ?thesis
    using getProp_readAllParts[of exec parseRows' parseObject db sid k] by blast
qed

lemma readers_return_parsed_rows_example:
  "map mr_id (filter (\<lambda>r. \<not> parses parse_message (mr_data r)) message_rows) = [''m2''] \<and>
   length (readMessagesFromDb exec_rows parse_message_rows parse_message ''/db'' ''s1'') = 3 \<and>
   map pr_id (filter (\<lambda>r. \<not> parses parse_part (pr_data r)) part_rows) = [''p2''] \<and>
   getProp (readAllPartsForSessionFromDb exec_rows parse_part_rows parse_part ''/db'' ''s1'')
       ''m1'' =
     Some [[(''id'', JStr ''p1''), (''type'', JStr ''text''), (''sessionID'', JStr ''s1''),
            (''messageID'', JStr ''m1'')]]"
proof -
  have bad: "map mr_id (filter (\<lambda>r. \<not> parses parse_message (mr_data r)) message_rows) = [''m2'']"
    by code_simp
  have bad': "map pr_id (filter (\<lambda>r. \<not> parses parse_part (pr_data r)) part_rows) = [''p2'']"
    by code_simp
  have good: "length (filter (\<lambda>r. parses parse_message (mr_data r))
      (queryDb exec_rows parse_message_rows ''/db'' (messagesSql ''s1''))) = 3"
    by code_simp
  have parts: "partsFor parse_part ''m1''
      (queryDb exec_rows parse_part_rows ''/db'' (partsSql ''s1'')) =
      [[(''id'', JStr ''p1''), (''type'', JStr ''text''), (''sessionID'', JStr ''s1''),
        (''messageID'', JStr ''m1'')]]"
    by code_simp
  have inh: "\<not> inherited ''m1''"
    by code_simp
  note inst = readers_return_parsed_rows[of exec_rows parse_message_rows parse_message "''/db''"
      "''s1''" parse_part_rows parse_part "''m1''"]
  have "length (readMessagesFromDb exec_rows parse_message_rows parse_message ''/db'' ''s1'') = 3"
    using inst[THEN conjunct2, THEN conjunct1] good by (simp only:)
  moreover
  have "getProp (readAllPartsForSessionFromDb exec_rows parse_part_rows parse_part ''/db'' ''s1'')
       ''m1'' =
     Some [[(''id'', JStr ''p1''), (''type'', JStr ''text''), (''sessionID'', JStr ''s1''),
            (''messageID'', JStr ''m1'')]]"
    using inst[THEN conjunct2, THEN conjunct2, THEN conjunct1] parts inh by simp
  ultimately show ?thesis using bad bad' by blast
qed

text \<open>
  C7, at a part row that the source loses: the query returns two part rows whose blobs
  both parse, the first filed under the message id \<open>constructor\<close>. For that row the
  lookup \<open>partsMap[row.message_id]\<close> finds the inherited \<open>Object.prototype.constructor\<close>,
  no array is created, \<open>push\<close> raises a \<open>TypeError\<close>, and the \<open>catch\<close> drops the row as
  if its blob had not parsed. The map returned holds the second row only, so a row
  that is well formed is not returned. \<open>readMessagesFromDb\<close>, which pushes onto an array,
  returns a message for both of two such rows.
\<close>

theorem part_row_under_inherited_name_is_dropped:
  "map pr_id (queryDb exec_rows parse_part_rows_inherited ''/db'' (partsSql ''s1'')) =
     [''p1'', ''p2''] \<and>
   map pr_message_id (queryDb exec_rows parse_part_rows_inherited ''/db'' (partsSql ''s1'')) =
     [''constructor'', ''m2''] \<and>
   map (\<lambda>r. parses parse_part (pr_data r))
     (queryDb exec_rows parse_part_rows_inherited ''/db'' (partsSql ''s1'')) = [True, True] \<and>
   pushPart parse_part [] (hd part_rows_inherited) = Inl TypeError \<and>
   readAllPartsForSessionFromDb exec_rows parse_part_rows_inherited parse_part ''/db'' ''s1'' =
     [(''m2'', [[(''type'', JStr ''tool''), (''id'', JStr ''p2''), (''messageID'', JStr ''m2''),
                (''sessionID'', JStr ''s1'')]])] \<and>
   getProp (readAllPartsForSessionFromDb exec_rows parse_part_rows_inherited parse_part
     ''/db'' ''s1'') ''constructor'' = None \<and>
   map msg_id (collectMessages parse_message
     [\<lparr>mr_id = ''p1'', mr_session_id = ''s1'', mr_data = ''early''\<rparr>,
      \<lparr>mr_id = ''p2'', mr_session_id = ''s1'', mr_data = ''early''\<rparr>]) = [''p1'', ''p2'']"
  by code_simp



section \<open>The SQL text and the failure modes of the query\<close>

lemma literalBody_escape:
  assumes "case rest of [] \<Rightarrow> True | c # _ \<Rightarrow> c \<noteq> quote"
  shows "literalBody (escapeSqlString v @ quote # rest) = Some (v, rest)"
proof (induction v)
  case Nil
  from assms show ?case by (cases rest) (simp_all add: escapeSqlString_def)
next
  case (Cons a v)
  show ?case
  proof (cases "a = quote")
    case True
    with Cons show ?thesis by (simp add: escapeSqlString_def)
  next
    case False
    obtain x xs where "escapeSqlString v @ quote # rest = x # xs"
      by (cases "escapeSqlString v @ quote # rest") auto
    with False Cons show ?thesis by (simp add: escapeSqlString_def)
  qed
qed

lemma literal_alone:
  "sqlStringLiteral (quote # escapeSqlString sid @ [quote]) = Some (sid, [])"
  using literalBody_escape[of "[]" sid] by (simp add: sqlStringLiteral_def)

lemma literal_before_order_by:
  "sqlStringLiteral (quote # escapeSqlString sid @ quote # '' ORDER BY id ASC'') =
     Some (sid, '' ORDER BY id ASC'')"
proof -
  have "CHR '' '' \<noteq> quote" by (simp add: quote_def)
  then have "case '' ORDER BY id ASC'' of [] \<Rightarrow> True | c # _ \<Rightarrow> c \<noteq> quote"
    by simp
  from literalBody_escape[OF this, of sid] show ?thesis
    by (simp add: sqlStringLiteral_def)
qed

lemma messagesSql_shape:
  "messagesSql sid =
     ''SELECT id, session_id, data FROM message WHERE session_id = '' @ quote #
       escapeSqlString sid @ [quote]"
  by (simp add: messagesSql_def Let_def)

lemma partsSql_shape:
  "partsSql sid =
     ''SELECT id, message_id, session_id, data FROM part WHERE session_id = '' @ quote #
       escapeSqlString sid @ quote # '' ORDER BY id ASC''"
  by (simp add: partsSql_def Let_def)

lemma queryDb_cong:
  assumes "exec ''sqlite3'' [''-json'', ''-readonly'', db, sql] =
           exec' ''sqlite3'' [''-json'', ''-readonly'', db, sql]"
  shows "queryDb exec parseRows db sql = queryDb exec' parseRows db sql"
  using assms by (simp only: queryDb_def)

lemma messages_one_statement:
  "exec ''sqlite3'' [''-json'', ''-readonly'', db, messagesSql sid] =
     exec' ''sqlite3'' [''-json'', ''-readonly'', db, messagesSql sid] \<longrightarrow>
   readMessagesFromDb exec parseRows parseData db sid =
     readMessagesFromDb exec' parseRows parseData db sid"
proof
  assume a: "exec ''sqlite3'' [''-json'', ''-readonly'', db, messagesSql sid] =
      exec' ''sqlite3'' [''-json'', ''-readonly'', db, messagesSql sid]"
  have "queryDb exec parseRows db (messagesSql sid) = queryDb exec' parseRows db (messagesSql sid)"
    by (rule queryDb_cong[where exec = exec and exec' = exec' and db = db
          and sql = "messagesSql sid", OF a])
  then show "readMessagesFromDb exec parseRows parseData db sid =
      readMessagesFromDb exec' parseRows parseData db sid"
    by (simp only: readMessagesFromDb_def)
qed

lemma parts_one_statement:
  "exec ''sqlite3'' [''-json'', ''-readonly'', db, partsSql sid] =
     exec' ''sqlite3'' [''-json'', ''-readonly'', db, partsSql sid] \<longrightarrow>
   readAllPartsForSessionFromDb exec parseRows' parseObject db sid =
     readAllPartsForSessionFromDb exec' parseRows' parseObject db sid"
proof
  assume a: "exec ''sqlite3'' [''-json'', ''-readonly'', db, partsSql sid] =
      exec' ''sqlite3'' [''-json'', ''-readonly'', db, partsSql sid]"
  have "queryDb exec parseRows' db (partsSql sid) = queryDb exec' parseRows' db (partsSql sid)"
    by (rule queryDb_cong[where exec = exec and exec' = exec' and db = db
          and sql = "partsSql sid", OF a])
  then show "readAllPartsForSessionFromDb exec parseRows' parseObject db sid =
      readAllPartsForSessionFromDb exec' parseRows' parseObject db sid"
    by (simp only: readAllPartsForSessionFromDb_def)
qed

lemma queryDb_rowsOfResult:
  "queryDb exec parseRows db sql =
     rowsOfResult parseRows (exec ''sqlite3'' [''-json'', ''-readonly'', db, sql])"
  by (simp only: queryDb_def rowsOfResult_def)

lemma messages_statement_passed:
  "readMessagesFromDb exec parseRows parseData db sid =
     arraySort compareCreated
       (collectMessages parseData
          (rowsOfResult parseRows
             (exec ''sqlite3'' [''-json'', ''-readonly'', db, messagesSql sid])))"
  by (simp only: readMessagesFromDb_def Let_def queryDb_rowsOfResult)

lemma parts_statement_passed:
  "readAllPartsForSessionFromDb exec parseRows' parseObject db sid =
     collectParts parseObject []
       (rowsOfResult parseRows'
          (exec ''sqlite3'' [''-json'', ''-readonly'', db, partsSql sid]))"
  by (simp only: readAllPartsForSessionFromDb_def Let_def queryDb_rowsOfResult)

text \<open>
  C10: for every session id, the SQL text of \<open>readMessagesFromDb\<close> is the fixed
  \<open>SELECT ... WHERE session_id = \<close> followed by the quoted, escaped id, and that of
  \<open>readAllPartsForSessionFromDb\<close> is its fixed \<open>SELECT\<close>, the quoted, escaped id and
  \<open>ORDER BY id ASC\<close>. Escaping doubles every single quote, so SQLite reads the quoted text
  as one string literal whose value is the session id itself and which ends exactly where
  the fixed text resumes. Each reader consults \<open>sqlite3\<close> with this one statement only:
  two runs of the CLI that answer it alike give the same result. And each reader does
  hand this text to the CLI: what it returns is made of the rows that the call of
  \<open>sqlite3\<close> with the arguments \<open>-json\<close>, \<open>-readonly\<close>, the database path and this very
  statement gives.
\<close>

theorem session_id_is_quoted_literal:
  "messagesSql sid =
     ''SELECT id, session_id, data FROM message WHERE session_id = '' @ quote #
       escapeSqlString sid @ [quote] \<and>
   partsSql sid =
     ''SELECT id, message_id, session_id, data FROM part WHERE session_id = '' @ quote #
       escapeSqlString sid @ quote # '' ORDER BY id ASC'' \<and>
   escapeSqlString sid = concat (map (\<lambda>c. if c = quote then [quote, quote] else [c]) sid) \<and>
   sqlStringLiteral (quote # escapeSqlString sid @ [quote]) = Some (sid, []) \<and>
   sqlStringLiteral (quote # escapeSqlString sid @ quote # '' ORDER BY id ASC'') =
     Some (sid, '' ORDER BY id ASC'') \<and>
   (exec ''sqlite3'' [''-json'', ''-readonly'', db, messagesSql sid] =
      exec' ''sqlite3'' [''-json'', ''-readonly'', db, messagesSql sid] \<longrightarrow>
    readMessagesFromDb exec parseRows parseData db sid =
      readMessagesFromDb exec' parseRows parseData db sid) \<and>
   (exec ''sqlite3'' [''-json'', ''-readonly'', db, partsSql sid] =
      exec' ''sqlite3'' [''-json'', ''-readonly'', db, partsSql sid] \<longrightarrow>
    readAllPartsForSessionFromDb exec parseRows' parseObject db sid =
      readAllPartsForSessionFromDb exec' parseRows' parseObject db sid) \<and>
   readMessagesFromDb exec parseRows parseData db sid =
     arraySort compareCreated
       (collectMessages parseData
          (rowsOfResult parseRows
             (exec ''sqlite3'' [''-json'', ''-readonly'', db, messagesSql sid]))) \<and>
   readAllPartsForSessionFromDb exec parseRows' parseObject db sid =
     collectParts parseObject []
       (rowsOfResult parseRows'
          (exec ''sqlite3'' [''-json'', ''-readonly'', db, partsSql sid]))"
proof (intro conjI)
  show "escapeSqlString sid = concat (map (\<lambda>c. if c = quote then [quote, quote] else [c]) sid)"
    by (simp only: escapeSqlString_def)
qed (rule messagesSql_shape partsSql_shape literal_alone literal_before_order_by
       messages_one_statement parts_one_statement messages_statement_passed
       parts_statement_passed)+

theorem session_id_is_quoted_literal_witness:
  "escapeSqlString quoted_id =
     [CHR ''a'', quote, quote, CHR '';'', quote, quote, quote, quote, CHR ''b''] \<and>
   sqlStringLiteral (quote # escapeSqlString quoted_id @ [quote]) = Some (quoted_id, []) \<and>
   exec_rows ''sqlite3'' [''-json'', ''-readonly'', ''/db'', messagesSql quoted_id] =
     exec_rows_or_fail ''sqlite3'' [''-json'', ''-readonly'', ''/db'', messagesSql quoted_id] \<and>
   readMessagesFromDb exec_rows parse_message_rows parse_message ''/db'' quoted_id =
     readMessagesFromDb exec_rows_or_fail parse_message_rows parse_message ''/db'' quoted_id \<and>
   exec_exact ''sqlite3'' [''-json'', ''-readonly'', ''/db'',
      ''SELECT id, session_id, data FROM message WHERE session_id = '' @ quote # quoted_id @
      [quote]] = Rejected ''refused'' \<and>
   map msg_id (readMessagesFromDb exec_exact parse_message_rows parse_message ''/db'' quoted_id) =
     [''m3'', ''m4'', ''m1''] \<and>
   map fst (readAllPartsForSessionFromDb exec_exact parse_part_rows parse_part ''/db'' quoted_id) =
     [''m1'', ''m2'']"
proof -
  note exact = session_id_is_quoted_literal[where sid = quoted_id and exec = exec_exact
      and db = "''/db''" and exec' = exec_exact and parseRows = parse_message_rows
      and parseData = parse_message and parseRows' = parse_part_rows
      and parseObject = parse_part]
  have refused: "exec_exact ''sqlite3'' [''-json'', ''-readonly'', ''/db'',
      ''SELECT id, session_id, data FROM message WHERE session_id = '' @ quote # quoted_id @
      [quote]] = Rejected ''refused''"
    by code_simp
  have mr: "map msg_id (arraySort compareCreated
       (collectMessages parse_message
          (rowsOfResult parse_message_rows
             (exec_exact ''sqlite3'' [''-json'', ''-readonly'', ''/db'', messagesSql quoted_id])))) =
     [''m3'', ''m4'', ''m1'']"
    by code_simp
  have pr: "map fst (collectParts parse_part []
       (rowsOfResult parse_part_rows
          (exec_exact ''sqlite3'' [''-json'', ''-readonly'', ''/db'', partsSql quoted_id]))) =
     [''m1'', ''m2'']"
    by code_simp
  have em: "map msg_id (readMessagesFromDb exec_exact parse_message_rows parse_message ''/db''
      quoted_id) = [''m3'', ''m4'', ''m1'']"
    using exact[THEN conjunct2, THEN conjunct2, THEN conjunct2, THEN conjunct2,
          THEN conjunct2, THEN conjunct2, THEN conjunct2, THEN conjunct1] mr
    by (simp only:)
  have ep: "map fst (readAllPartsForSessionFromDb exec_exact parse_part_rows parse_part ''/db''
      quoted_id) = [''m1'', ''m2'']"
    using exact[THEN conjunct2, THEN conjunct2, THEN conjunct2, THEN conjunct2,
          THEN conjunct2, THEN conjunct2, THEN conjunct2, THEN conjunct2] pr
    by (simp only:)
  note inst = session_id_is_quoted_literal[where sid = quoted_id and exec = exec_rows
      and db = "''/db''" and exec' = exec_rows_or_fail and parseRows = parse_message_rows
      and parseData = parse_message and parseRows' = parse_part_rows
      and parseObject = parse_part]
  have e: "escapeSqlString quoted_id =
     [CHR ''a'', quote, quote, CHR '';'', quote, quote, quote, quote, CHR ''b'']"
    by code_simp
  have l: "sqlStringLiteral (quote # escapeSqlString quoted_id @ [quote]) = Some (quoted_id, [])"
    by (rule inst[THEN conjunct2, THEN conjunct2, THEN conjunct2, THEN conjunct1])
  have a: "exec_rows ''sqlite3'' [''-json'', ''-readonly'', ''/db'', messagesSql quoted_id] =
     exec_rows_or_fail ''sqlite3'' [''-json'', ''-readonly'', ''/db'', messagesSql quoted_id]"
    by code_simp
  have "readMessagesFromDb exec_rows parse_message_rows parse_message ''/db'' quoted_id =
     readMessagesFromDb exec_rows_or_fail parse_message_rows parse_message ''/db'' quoted_id"
    by (rule inst[THEN conjunct2, THEN conjunct2, THEN conjunct2, THEN conjunct2,
          THEN conjunct2, THEN conjunct1, rule_format, OF a])
  with e l a refused em ep show ?thesis by (intro conjI)
qed

lemma queryDb_unavailable:
  assumes "unavailable (exec ''sqlite3'' [''-json'', ''-readonly'', db, sql])"
  shows "queryDb exec parseRows db sql = []"
proof (cases "exec ''sqlite3'' [''-json'', ''-readonly'', db, sql]")
  case (Exited code out err)
  with assms show ?thesis by (auto simp: queryDb_def unavailable_def Let_def)
next
  case (Rejected msg)
  then show ?thesis by (simp add: queryDb_def)
qed

lemma getOpenCodeStoragePath_candidate:
  "getOpenCodeStoragePath fs env =
     (if existsSync fs (storageCandidate env) then Some (storageCandidate env) else None)"
  by (simp add: getOpenCodeStoragePath_def storageCandidate_def Let_def)

text \<open>
  C8: when the database cannot be queried, that is, the \<open>sqlite3\<close> call is rejected
  (timeout, no such program), leaves with a non-zero code (as on a missing or foreign
  file) or prints nothing, then the three readers return no sessions, no messages and an
  empty parts map; no error leaves them. \<open>getOpenCodeStoragePath\<close> returns the path it
  tests when that path exists and null otherwise, and so never a path that does not
  exist; \<open>getDbPathFromStorage\<close> and \<open>getOpenCodeDbPath\<close> likewise return only an existing
  database file.
\<close>

theorem unavailable_storage_gives_empty:
  assumes "\<forall>sql. unavailable (exec ''sqlite3'' [''-json'', ''-readonly'', db, sql])"
  shows "readSessionsFromDb exec parseSessions now db options = [] \<and>
         readMessagesFromDb exec parseRows parseData db sid = [] \<and>
         readAllPartsForSessionFromDb exec parseRows' parseObject db sid = [] \<and>
         getOpenCodeStoragePath fs env =
           (if existsSync fs (storageCandidate env) then Some (storageCandidate env) else None) \<and>
         (\<forall>p. getOpenCodeStoragePath fs env = Some p \<longrightarrow> existsSync fs p) \<and>
         (\<forall>p. getDbPathFromStorage fs storagePath = Some p \<longrightarrow> existsSync fs p) \<and>
         (\<forall>p. getOpenCodeDbPath fs env = Some p \<longrightarrow> existsSync fs p)"
proof (intro conjI)
  have s: "queryDb exec parseSessions db sessionsSql = []"
    by (rule queryDb_unavailable[where exec = exec, OF assms[rule_format]])
  have m: "queryDb exec parseRows db (messagesSql sid) = []"
    by (rule queryDb_unavailable[where exec = exec, OF assms[rule_format]])
  have p: "queryDb exec parseRows' db (partsSql sid) = []"
    by (rule queryDb_unavailable[where exec = exec, OF assms[rule_format]])
  show "readSessionsFromDb exec parseSessions now db options = []"
    by (simp add: readSessionsFromDb_def Let_def s)
  show "readMessagesFromDb exec parseRows parseData db sid = []"
    by (simp add: readMessagesFromDb_def Let_def m arraySort_def)
  show "readAllPartsForSessionFromDb exec parseRows' parseObject db sid = []"
    by (simp add: readAllPartsForSessionFromDb_def Let_def p)
  show "getOpenCodeStoragePath fs env =
      (if existsSync fs (storageCandidate env) then Some (storageCandidate env) else None)"
    by (rule getOpenCodeStoragePath_candidate)
  show "\<forall>p. getOpenCodeStoragePath fs env = Some p \<longrightarrow> existsSync fs p"
    by (auto simp: getOpenCodeStoragePath_candidate split: if_splits)
  show "\<forall>p. getDbPathFromStorage fs storagePath = Some p \<longrightarrow> existsSync fs p"
    by (auto simp: getDbPathFromStorage_def Let_def split: if_splits)
  show "\<forall>p. getOpenCodeDbPath fs env = Some p \<longrightarrow> existsSync fs p"
    by (auto simp: getOpenCodeDbPath_def Let_def split: option.splits if_splits)
qed

theorem unavailable_storage_gives_empty_witness:
  "unavailable (exec_failing ''sqlite3''
      [''-json'', ''-readonly'', ''/gone/opencode.db'', sessionsSql]) \<and>
   unavailable (exec_failing ''sqlite3''
      [''-json'', ''-readonly'', ''/gone/opencode.db'', messagesSql ''s1'']) \<and>
   readSessionsFromDb exec_failing (\<lambda>out. None) 0 ''/gone/opencode.db'' None = [] \<and>
   readMessagesFromDb exec_failing parse_message_rows parse_message ''/gone/opencode.db''
     ''s1'' = [] \<and>
   readAllPartsForSessionFromDb exec_failing parse_part_rows parse_part ''/gone/opencode.db''
     ''s1'' = [] \<and>
   storageCandidate env_linux = ''/home/dev/.local/share/opencode/storage'' \<and>
   getOpenCodeStoragePath (\<lambda>p. None) env_linux = None"
proof -
  have u: "unavailable (exec_failing ''sqlite3'' [''-json'', ''-readonly'', ''/gone/opencode.db'', sql])"
    for sql
    by (simp add: unavailable_def exec_failing_def trim_def)
  then have h: "\<forall>sql. unavailable
      (exec_failing ''sqlite3'' [''-json'', ''-readonly'', ''/gone/opencode.db'', sql])"
    by (rule allI)
  note inst = unavailable_storage_gives_empty[where exec = exec_failing
      and db = "''/gone/opencode.db''" and parseSessions = "\<lambda>out. None" and now = 0
      and options = None and parseRows = parse_message_rows and parseData = parse_message
      and sid = "''s1''" and parseRows' = parse_part_rows and parseObject = parse_part
      and fs = "\<lambda>p. None" and env = env_linux, OF h]
  have c: "storageCandidate env_linux = ''/home/dev/.local/share/opencode/storage''"
    by code_simp
  have g: "getOpenCodeStoragePath (\<lambda>p. None) env_linux = None"
    using inst[THEN conjunct2, THEN conjunct2, THEN conjunct2, THEN conjunct1]
    by (simp add: existsSync_def)
  have r1: "readSessionsFromDb exec_failing (\<lambda>out. None) 0 ''/gone/opencode.db'' None = []"
    by (rule inst[THEN conjunct1])
  have r2: "readMessagesFromDb exec_failing parse_message_rows parse_message
      ''/gone/opencode.db'' ''s1'' = []"
    by (rule inst[THEN conjunct2, THEN conjunct1])
  have r3: "readAllPartsForSessionFromDb exec_failing parse_part_rows parse_part
      ''/gone/opencode.db'' ''s1'' = []"
    by (rule inst[THEN conjunct2, THEN conjunct2, THEN conjunct1])
  from u[of sessionsSql] u[of "messagesSql ''s1''"] r1 r2 r3 c g show ?thesis
    by (intro conjI)
qed

section \<open>The syncer on the queue\<close>

lemma listPending_none:
  assumes "\<forall>d \<in> set queue. syncStatus d \<noteq> Pending"
  shows "listPending queue = []"
  using assms by (simp add: listPending_def)

lemma sync_when_pending:
  assumes "listPending (store sid) \<noteq> []"
  shows "posts (sync transport now store sid) = [aggregate (listPending (store sid))]"
  using assms by (simp add: sync_def Let_def split: Response.splits)

text \<open>
  C1: whenever the session's queue holds at least one pending delta, one call of \<open>sync\<close>
  hands exactly one metric object to the transport, the aggregate of the pending deltas,
  whatever the remote answers; its \<open>total_input_tokens\<close>, \<open>total_output_tokens\<close>, both
  cache token totals and \<open>total_tool_calls\<close> are the exact sums of the pending deltas'
  input, output and cache tokens and tool-call counts.
\<close>

theorem sync_posts_one_aggregate:
  assumes "listPending (store sid) \<noteq> []"
  shows "posts (sync transport now store sid) = [aggregate (listPending (store sid))] \<and>
         length (posts (sync transport now store sid)) = 1 \<and>
         total_input_tokens (aggregate (listPending (store sid))) =
           sum_list (map (\<lambda>d. tk_input (tokens d)) (listPending (store sid))) \<and>
         total_output_tokens (aggregate (listPending (store sid))) =
           sum_list (map (\<lambda>d. tk_output (tokens d)) (listPending (store sid))) \<and>
         total_cache_read_input_tokens (aggregate (listPending (store sid))) =
           sum_list (map (\<lambda>d. tk_cacheRead (tokens d)) (listPending (store sid))) \<and>
         total_cache_creation_tokens (aggregate (listPending (store sid))) =
           sum_list (map (\<lambda>d. tk_cacheCreation (tokens d)) (listPending (store sid))) \<and>
         total_tool_calls (aggregate (listPending (store sid))) =
           sum_list (map (\<lambda>d. sum_list (map snd (tools d))) (listPending (store sid)))"
  using sync_when_pending[where store = store and sid = sid, OF assms]
  by (simp add: aggregate_def)

theorem sync_posts_one_aggregate_witness:
  "listPending (two_pending ''test-syncer-metrics'') \<noteq> [] \<and>
   map total_input_tokens
     (posts (sync (always Status5xx) 1000 two_pending ''test-syncer-metrics'')) = [800] \<and>
   map total_output_tokens
     (posts (sync (always Status5xx) 1000 two_pending ''test-syncer-metrics'')) = [400] \<and>
   map total_tool_calls
     (posts (sync (always Status5xx) 1000 two_pending ''test-syncer-metrics'')) = [2]"
proof -
  have h: "listPending (two_pending ''test-syncer-metrics'') \<noteq> []"
    by code_simp
  have p: "posts (sync (always Status5xx) 1000 two_pending ''test-syncer-metrics'') =
      [aggregate (listPending (two_pending ''test-syncer-metrics''))]"
    by (rule sync_posts_one_aggregate[where store = two_pending
          and sid = "''test-syncer-metrics''", OF h, THEN conjunct1])
  have i: "total_input_tokens (aggregate (listPending (two_pending ''test-syncer-metrics''))) = 800"
    by code_simp
  have out: "total_output_tokens (aggregate (listPending (two_pending ''test-syncer-metrics''))) = 400"
    by code_simp
  have t: "total_tool_calls (aggregate (listPending (two_pending ''test-syncer-metrics''))) = 2"
    by code_simp
  from h p i out t show ?thesis by simp
qed

text \<open>
  C2: if no record of the session's queue is pending, \<open>sync\<close> reports success with a
  message that begins \<open>No pending\<close>, hands nothing to the transport, and leaves every queue
  as it was.
\<close>

theorem sync_nothing_pending:
  assumes "\<forall>d \<in> set (store sid). syncStatus d \<noteq> Pending"
  shows "success (sync transport now store sid) \<and>
         message (sync transport now store sid) = ''No pending deltas to sync'' \<and>
         take 10 (message (sync transport now store sid)) = ''No pending'' \<and>
         posts (sync transport now store sid) = [] \<and>
         queues (sync transport now store sid) = store"
  using listPending_none[where queue = "store sid", OF assms]
  by (simp add: sync_def Let_def)

theorem sync_nothing_pending_witness:
  "map syncStatus (one_synced ''test-syncer-empty'') = [Synced] \<and>
   success (sync (always Status5xx) 1000 one_synced ''test-syncer-empty'') \<and>
   take 10 (message (sync (always Status5xx) 1000 one_synced ''test-syncer-empty'')) =
     ''No pending'' \<and>
   posts (sync (always Status5xx) 1000 one_synced ''test-syncer-empty'') = []"
proof -
  have s: "map syncStatus (one_synced ''test-syncer-empty'') = [Synced]"
    by code_simp
  have h: "\<forall>d \<in> set (one_synced ''test-syncer-empty''). syncStatus d \<noteq> Pending"
    by (simp add: one_synced_def)
  note inst = sync_nothing_pending[where store = one_synced and sid = "''test-syncer-empty''"
      and transport = "always Status5xx" and now = 1000, OF h]
  from s inst show ?thesis by (intro conjI) simp_all
qed

lemma recordIds_kept:
  "map recordId (markSynced ids t q) = map recordId q"
  "map recordId (markRetry ids q) = map recordId q"
  "map recordId (markFailed ids q) = map recordId q"
  by (simp_all add: markSynced_def markRetry_def markFailed_def comp_def)

lemma markSynced_keeps:
  "syncedAtIffSynced q \<Longrightarrow> syncedAtIffSynced (markSynced ids t q)"
  by (induction q) (simp_all add: syncedAtIffSynced_def markSynced_def)

lemma markRetry_keeps:
  "syncedAtIffSynced q \<Longrightarrow> syncedAtIffSynced (markRetry ids q)"
  by (induction q) (simp_all add: syncedAtIffSynced_def markRetry_def)

lemma markFailed_keeps:
  assumes "syncedAtIffSynced q"
    and "\<forall>d \<in> set q. recordId d \<in> set ids \<longrightarrow> syncStatus d = Pending"
  shows "syncedAtIffSynced (markFailed ids q)"
  using assms by (induction q) (auto simp: syncedAtIffSynced_def markFailed_def)

lemma pending_by_id:
  assumes "distinct (map recordId q)" and "d \<in> set q"
    and "recordId d \<in> set (map recordId (listPending q))"
  shows "syncStatus d = Pending"
proof -
  from assms(3) obtain p where p: "p \<in> set q" "syncStatus p = Pending" "recordId p = recordId d"
    by (auto simp: listPending_def)
  from assms(1) have "inj_on recordId (set q)" by (simp add: distinct_map)
  with p assms(2) have "p = d" by (auto dest: inj_onD)
  with p show ?thesis by simp
qed

lemma markRetry_status:
  "d' \<in> set (markRetry ids q) \<Longrightarrow>
     \<exists>d \<in> set q. recordId d' = recordId d \<and> syncStatus d' = syncStatus d"
  by (auto simp: markRetry_def)

lemma retried_pending:
  assumes "distinct (map recordId q)"
    and "set ids \<subseteq> set (map recordId (listPending q))"
  shows "\<forall>d' \<in> set (markRetry ids' q). recordId d' \<in> set ids \<longrightarrow> syncStatus d' = Pending"
proof (intro ballI impI)
  fix d' assume d': "d' \<in> set (markRetry ids' q)" and m: "recordId d' \<in> set ids"
  from markRetry_status[OF d'] obtain d where d: "d \<in> set q" "recordId d' = recordId d"
      "syncStatus d' = syncStatus d" by blast
  with m assms(2) have "recordId d \<in> set (map recordId (listPending q))" by auto
  from pending_by_id[OF assms(1) d(1) this] d(3) show "syncStatus d' = Pending" by simp
qed

lemma exhausted_subset: "set (exhausted ids q) \<subseteq> set ids"
  by (auto simp: exhausted_def)

lemma sync_keeps_invariant:
  assumes "queueInvariant (store sid)"
  shows "queueInvariant (queues (sync transport now store sid) sid)"
proof (cases "listPending (store sid) = []")
  case True
  with assms show ?thesis by (simp add: sync_def Let_def)
next
  case False
  let ?q = "store sid"
  let ?ids = "map recordId (listPending ?q)"
  from assms have dist: "distinct (map recordId ?q)" and iff: "syncedAtIffSynced ?q"
    by (simp_all add: queueInvariant_def)
  have ok2: "queueInvariant (markSynced ?ids now ?q)"
    using dist iff by (simp add: queueInvariant_def recordIds_kept markSynced_keeps)
  have ok4: "queueInvariant (markFailed ?ids (markRetry ?ids ?q))"
    using dist markFailed_keeps[OF markRetry_keeps[OF iff] retried_pending[OF dist subset_refl]]
    by (simp add: queueInvariant_def recordIds_kept)
  have sub: "set (exhausted ?ids (markRetry ?ids ?q)) \<subseteq> set ?ids"
    by (rule exhausted_subset)
  have ok5: "queueInvariant (markFailed (exhausted ?ids (markRetry ?ids ?q)) (markRetry ?ids ?q))"
    using dist markFailed_keeps[OF markRetry_keeps[OF iff] retried_pending[OF dist sub]]
    by (simp add: queueInvariant_def recordIds_kept)
  from False ok2 ok4 ok5 show ?thesis
    by (cases "transport (aggregate (listPending ?q))") (simp_all add: sync_def Let_def)
qed

lemma appendDelta_keeps_invariant:
  assumes "queueInvariant queue"
  shows "queueInvariant (appendDelta delta queue)"
  using assms by (auto simp: queueInvariant_def appendDelta_def syncedAtIffSynced_def)

text \<open>
  C3: when a pending delta with no attempt so far is in the session's queue and the
  remote answers the aggregate with success, the queue afterwards holds that record as
  synced, with one attempt and \<open>syncedAt\<close> set, and \<open>sync\<close> reports success. That
  \<open>syncedAt\<close> is present exactly on the synced records (with record ids unique) holds of
  the empty queue and is kept by \<open>append\<close> and by \<open>sync\<close> under every answer of the remote,
  hence holds of every queue these operations produce.
\<close>

theorem sync_success_marks_synced:
  assumes "d \<in> set (store sid)" and "syncStatus d = Pending" and "syncAttempts d = 0"
    and "transport (aggregate (listPending (store sid))) = Status2xx"
  shows "success (sync transport now store sid) \<and>
         d\<lparr>syncStatus := Synced, syncAttempts := 1, syncedAt := Some now\<rparr>
           \<in> set (queues (sync transport now store sid) sid) \<and>
         queueInvariant [] \<and>
         (queueInvariant queue \<longrightarrow> queueInvariant (appendDelta delta queue)) \<and>
         (queueInvariant (store sid) \<longrightarrow>
            queueInvariant (queues (sync anyTransport now store sid) sid) \<and>
            (\<forall>r \<in> set (queues (sync anyTransport now store sid) sid).
               (syncedAt r \<noteq> None) = (syncStatus r = Synced)))"
proof -
  let ?q = "store sid"
  let ?ids = "map recordId (listPending ?q)"
  from assms(1,2) have mem: "d \<in> set (listPending ?q)" by (simp add: listPending_def)
  then have ne: "listPending ?q \<noteq> []" by auto
  from mem have idm: "recordId d \<in> set ?ids" by simp
  from ne assms(4) have q': "queues (sync transport now store sid) sid = markSynced ?ids now ?q"
    and ok: "success (sync transport now store sid)"
    by (simp_all add: sync_def Let_def)
  have "(\<lambda>x. if recordId x \<in> set ?ids
              then x\<lparr>syncStatus := Synced, syncAttempts := syncAttempts x + 1,
                     syncedAt := Some now\<rparr>
              else x) d \<in> set (markSynced ?ids now ?q)"
    unfolding markSynced_def using assms(1) by (intro imageI[of d "set ?q", folded set_map])
  with idm assms(3)
  have "d\<lparr>syncStatus := Synced, syncAttempts := 1, syncedAt := Some now\<rparr>
          \<in> set (markSynced ?ids now ?q)"
    by simp
  with q' have part1: "d\<lparr>syncStatus := Synced, syncAttempts := 1, syncedAt := Some now\<rparr>
          \<in> set (queues (sync transport now store sid) sid)"
    by simp
  have e: "queueInvariant []"
    by (simp add: queueInvariant_def syncedAtIffSynced_def)
  have a: "queueInvariant queue \<longrightarrow> queueInvariant (appendDelta delta queue)"
    by (simp add: appendDelta_keeps_invariant)
  have s: "queueInvariant (store sid) \<longrightarrow>
            queueInvariant (queues (sync anyTransport now store sid) sid) \<and>
            (\<forall>r \<in> set (queues (sync anyTransport now store sid) sid).
               (syncedAt r \<noteq> None) = (syncStatus r = Synced))"
  proof
    assume "queueInvariant (store sid)"
    from sync_keeps_invariant[where store = store and sid = sid, OF this]
    have k: "queueInvariant (queues (sync anyTransport now store sid) sid)" .
    then have "\<forall>r \<in> set (queues (sync anyTransport now store sid) sid).
               (syncedAt r \<noteq> None) = (syncStatus r = Synced)"
      by (simp add: queueInvariant_def syncedAtIffSynced_def list_all_iff)
    with k show "queueInvariant (queues (sync anyTransport now store sid) sid) \<and>
            (\<forall>r \<in> set (queues (sync anyTransport now store sid) sid).
               (syncedAt r \<noteq> None) = (syncStatus r = Synced))" by simp
  qed
  from ok part1 e a s show ?thesis by (intro conjI)
qed

theorem sync_success_marks_synced_witness:
  "map syncStatus (one_pending ''test-syncer-metrics'') = [Pending] \<and>
   map syncAttempts (one_pending ''test-syncer-metrics'') = [0] \<and>
   queueInvariant (one_pending ''test-syncer-metrics'') \<and>
   map recordId (queues (sync (always Status2xx) 1000 one_pending ''test-syncer-metrics'')
     ''test-syncer-metrics'') = [''delta-1''] \<and>
   (mkDelta ''delta-1'' 1000 500 [(''write'', 1), (''read'', 1)])
       \<lparr>syncStatus := Synced, syncAttempts := 1, syncedAt := Some 1000\<rparr>
     \<in> set (queues (sync (always Status2xx) 1000 one_pending ''test-syncer-metrics'')
         ''test-syncer-metrics'') \<and>
   queueInvariant (queues (sync (always Status5xx) 1000 one_pending ''test-syncer-metrics'')
     ''test-syncer-metrics'')"
proof -
  let ?d = "mkDelta ''delta-1'' 1000 500 [(''write'', 1), (''read'', 1)]"
  have q: "one_pending ''test-syncer-metrics'' = [?d]"
    by (simp add: one_pending_def)
  have m: "?d \<in> set (one_pending ''test-syncer-metrics'')"
    by (simp add: q)
  have st: "syncStatus ?d = Pending" and at: "syncAttempts ?d = 0"
    by (simp_all add: mkDelta_def)
  have tr: "always Status2xx (aggregate (listPending (one_pending ''test-syncer-metrics''))) =
      Status2xx"
    by (simp add: always_def)
  have inv: "queueInvariant (one_pending ''test-syncer-metrics'')"
    by (simp add: q queueInvariant_def syncedAtIffSynced_def mkDelta_def)
  have ids: "map recordId (queues (sync (always Status2xx) 1000 one_pending
      ''test-syncer-metrics'') ''test-syncer-metrics'') = [''delta-1'']"
    by code_simp
  note inst = sync_success_marks_synced[where store = one_pending
      and sid = "''test-syncer-metrics''" and d = ?d and transport = "always Status2xx"
      and now = 1000 and anyTransport = "always Status5xx", OF m st at tr]
  have p1: "?d\<lparr>syncStatus := Synced, syncAttempts := 1, syncedAt := Some 1000\<rparr>
     \<in> set (queues (sync (always Status2xx) 1000 one_pending ''test-syncer-metrics'')
         ''test-syncer-metrics'')"
    by (rule inst[THEN conjunct2, THEN conjunct1])
  have p2: "queueInvariant (queues (sync (always Status5xx) 1000 one_pending
      ''test-syncer-metrics'') ''test-syncer-metrics'')"
    using inst[THEN conjunct2, THEN conjunct2, THEN conjunct2, THEN conjunct2] inv by blast
  from q st at inv ids p1 p2 show ?thesis by (intro conjI) simp_all
qed

end
